theory Spec2Isabelle
  imports Main "HOL-Library.Word"
begin

unbundle bit_operations_syntax

section \<open>Python values\<close>

text \<open>
  The program of \<^verbatim>\<open>nhl_powerbi_project/main.py\<close> works on the values that
  \<^verbatim>\<open>response.json()\<close> returns: \<^verbatim>\<open>None\<close>, booleans, unbounded integers, floats,
  strings, lists and dictionaries with string keys. A float is its IEEE 754 binary64 bit
  pattern. A dictionary is an association list in insertion order, read with \<open>map_of\<close>.
\<close>

datatype pyval =
    PNone
  | PBool bool
  | PInt int
  | PFloat "64 word"
  | PStr string
  | PList "pyval list"
  | PDict "(string \<times> pyval) list"

type_synonym pydict = "(string \<times> pyval) list"

text \<open>The exceptions (all subclasses of \<^verbatim>\<open>Exception\<close>) that the program can meet.\<close>

datatype error =
    KeyError
  | TypeError
  | AttributeError
  | IndexError
  | OverflowError
  | RequestException
  | HTTPError nat
  | JSONDecodeError

text \<open>
  What the Python runtime computes and this development does not define is a parameter:
  float arithmetic (which can raise \<^verbatim>\<open>OverflowError\<close> on a large integer operand),
  \<^verbatim>\<open>str(v)\<close> of a value that is not a string, \<^verbatim>\<open>str.lower\<close> and
  \<^verbatim>\<open>urllib.parse.quote\<close>.
\<close>

datatype binop = Add | Sub

datatype num = NInt int | NFloat "64 word"

record runtime =
  float_arith :: "binop \<Rightarrow> num \<Rightarrow> num \<Rightarrow> error + 64 word"
  str_of :: "pyval \<Rightarrow> string"
  lower :: "string \<Rightarrow> string"
  quote :: "string \<Rightarrow> string"

subsection \<open>Truthiness, subscripts, \<^verbatim>\<open>dict.get\<close>, iteration\<close>

text \<open>\<^verbatim>\<open>bool(v)\<close>: both float zeros (any sign bit) are false.\<close>

fun truthy :: "pyval \<Rightarrow> bool" where
  "truthy PNone = False"
| "truthy (PBool b) = b"
| "truthy (PInt i) = (i \<noteq> 0)"
| "truthy (PFloat w) = (w AND 0x7FFFFFFFFFFFFFFF \<noteq> 0)"
| "truthy (PStr s) = (s \<noteq> [])"
| "truthy (PList xs) = (xs \<noteq> [])"
| "truthy (PDict d) = (d \<noteq> [])"

text \<open>\<^verbatim>\<open>v["k"]\<close> with a string literal as the key.\<close>

fun subscript :: "pyval \<Rightarrow> string \<Rightarrow> error + pyval" where
  "subscript (PDict d) k = (case map_of d k of None \<Rightarrow> Inl KeyError | Some v \<Rightarrow> Inr v)"
| "subscript _ k = Inl TypeError"

text \<open>\<^verbatim>\<open>v[0]\<close>. The keys of a dictionary are strings, so \<open>0\<close> is never one of them.\<close>

fun subscript0 :: "pyval \<Rightarrow> error + pyval" where
  "subscript0 (PList []) = Inl IndexError"
| "subscript0 (PList (x # xs)) = Inr x"
| "subscript0 (PStr []) = Inl IndexError"
| "subscript0 (PStr (c # cs)) = Inr (PStr [c])"
| "subscript0 (PDict d) = Inl KeyError"
| "subscript0 _ = Inl TypeError"

text \<open>\<^verbatim>\<open>d.get(k, default)\<close> on a dictionary.\<close>

definition dict_get :: "pydict \<Rightarrow> string \<Rightarrow> pyval \<Rightarrow> pyval" where
  "dict_get d k dflt = (case map_of d k of None \<Rightarrow> dflt | Some v \<Rightarrow> v)"

text \<open>\<^verbatim>\<open>v.get(k, default)\<close>: only a dictionary has the attribute.\<close>

fun get_method :: "pyval \<Rightarrow> string \<Rightarrow> pyval \<Rightarrow> error + pyval" where
  "get_method (PDict d) k dflt = Inr (dict_get d k dflt)"
| "get_method _ k dflt = Inl AttributeError"

text \<open>\<^verbatim>\<open>for x in v\<close>: the elements of a list, the keys of a dictionary, the characters of a string.\<close>

fun py_iter :: "pyval \<Rightarrow> error + pyval list" where
  "py_iter (PList xs) = Inr xs"
| "py_iter (PDict d) = Inr (map (\<lambda>(k, v). PStr k) d)"
| "py_iter (PStr s) = Inr (map (\<lambda>c. PStr [c]) s)"
| "py_iter _ = Inl TypeError"

subsection \<open>Dictionary update\<close>

text \<open>\<^verbatim>\<open>d[k] = v\<close>: an existing key keeps its place, a new key goes last.\<close>

fun dict_set :: "pydict \<Rightarrow> string \<Rightarrow> pyval \<Rightarrow> pydict" where
  "dict_set [] k v = [(k, v)]"
| "dict_set ((k', v') # d) k v =
     (if k' = k then (k, v) # d else (k', v') # dict_set d k v)"

text \<open>\<^verbatim>\<open>d.update(other)\<close>.\<close>

definition dict_update :: "pydict \<Rightarrow> pydict \<Rightarrow> pydict" where
  "dict_update d other = fold (\<lambda>(k, v) acc. dict_set acc k v) other d"

subsection \<open>Arithmetic\<close>

text \<open>A boolean is an integer in arithmetic; everything that is not a number has no value.\<close>

fun as_num :: "pyval \<Rightarrow> num option" where
  "as_num (PBool b) = Some (NInt (if b then 1 else 0))"
| "as_num (PInt i) = Some (NInt i)"
| "as_num (PFloat w) = Some (NFloat w)"
| "as_num _ = None"

definition num_op :: "runtime \<Rightarrow> binop \<Rightarrow> num \<Rightarrow> num \<Rightarrow> error + pyval" where
  "num_op rt ope x y =
     (case (x, y) of
        (NInt a, NInt b) \<Rightarrow> Inr (PInt (case ope of Add \<Rightarrow> a + b | Sub \<Rightarrow> a - b))
      | _ \<Rightarrow> (case float_arith rt ope x y of Inl e \<Rightarrow> Inl e | Inr w \<Rightarrow> Inr (PFloat w)))"

text \<open>\<^verbatim>\<open>a - b\<close>\<close>

definition py_sub :: "runtime \<Rightarrow> pyval \<Rightarrow> pyval \<Rightarrow> error + pyval" where
  "py_sub rt a b =
     (case (as_num a, as_num b) of
        (Some x, Some y) \<Rightarrow> num_op rt Sub x y
      | _ \<Rightarrow> Inl TypeError)"

text \<open>\<^verbatim>\<open>a + b\<close>: lists and strings concatenate.\<close>

definition py_add :: "runtime \<Rightarrow> pyval \<Rightarrow> pyval \<Rightarrow> error + pyval" where
  "py_add rt a b =
     (case (a, b) of
        (PList xs, PList ys) \<Rightarrow> Inr (PList (xs @ ys))
      | (PStr s, PStr t) \<Rightarrow> Inr (PStr (s @ t))
      | _ \<Rightarrow> (case (as_num a, as_num b) of
                (Some x, Some y) \<Rightarrow> num_op rt Add x y
              | _ \<Rightarrow> Inl TypeError))"

text \<open>\<^verbatim>\<open>f"{v}"\<close>: a string formats as itself.\<close>

definition fmt :: "runtime \<Rightarrow> pyval \<Rightarrow> string" where
  "fmt rt v = (case v of PStr s \<Rightarrow> s | _ \<Rightarrow> str_of rt v)"

section \<open>The world: HTTP, the console, the file system\<close>

text \<open>
  What \<^verbatim>\<open>requests.get(url)\<close> meets: no response at all (the call raises), or a
  response with a status code and a body that decodes as JSON or does not. The answer may
  depend on the URL and on how many requests went before.
\<close>

datatype response = NoResponse | Response nat "pyval option"

type_synonym world = "nat \<Rightarrow> string \<Rightarrow> response"

text \<open>The lines printed on the console.\<close>

datatype line =
    Starting
  | ErrorFetching string error
  | InfoRoster string
  | NoTeams
  | Exported string nat
  | Success

record state =
  calls :: nat
  out :: "line list"
  dirs :: "string list"
  files :: "(string \<times> pydict list) list"

definition print :: "line \<Rightarrow> state \<Rightarrow> state" where
  "print l s = s\<lparr>out := out s @ [l]\<rparr>"

definition DATA_FOLDER :: string where "DATA_FOLDER = ''data''"
definition SEASON_ID :: string where "SEASON_ID = ''20252026''"
definition SEASON_ID_OFFSEASON :: string where "SEASON_ID_OFFSEASON = ''20242025''"
definition BASE_URL :: string where "BASE_URL = ''https://api-web.nhle.com/v1''"

section \<open>\<^verbatim>\<open>fetch_json\<close>\<close>

text \<open>
  The body of the \<^verbatim>\<open>try\<close>: \<^verbatim>\<open>requests.get\<close>, \<^verbatim>\<open>raise_for_status\<close> (an
  \<^verbatim>\<open>HTTPError\<close> for a status from 400 to 599), \<^verbatim>\<open>response.json()\<close>.
\<close>

definition fetch_json_try :: "response \<Rightarrow> error + pyval" where
  "fetch_json_try r =
     (case r of
        NoResponse \<Rightarrow> Inl RequestException
      | Response status body \<Rightarrow>
          if 400 \<le> status \<and> status < 600 then Inl (HTTPError status)
          else (case body of None \<Rightarrow> Inl JSONDecodeError | Some v \<Rightarrow> Inr v))"

text \<open>\<^verbatim>\<open>except Exception as e\<close>: print one line, return \<^verbatim>\<open>None\<close>.\<close>

definition fetch_json :: "world \<Rightarrow> string \<Rightarrow> state \<Rightarrow> (error + pyval) \<times> state" where
  "fetch_json W url s =
     (let s1 = s\<lparr>calls := Suc (calls s)\<rparr> in
      case fetch_json_try (W (calls s) url) of
        Inr v \<Rightarrow> (Inr v, s1)
      | Inl e \<Rightarrow> (Inr PNone, print (ErrorFetching url e) s1))"

section \<open>Sequencing\<close>

text \<open>An exception ends the computation: what follows a raising step does not run.\<close>

definition and_then :: "error + 'a \<Rightarrow> ('a \<Rightarrow> error + 'b) \<Rightarrow> error + 'b" where
  "and_then m f = (case m of Inl e \<Rightarrow> Inl e | Inr x \<Rightarrow> f x)"

text \<open>The same with the state of the world passed along.\<close>

definition seq ::
  "(error + 'a) \<times> state \<Rightarrow> ('a \<Rightarrow> state \<Rightarrow> (error + 'b) \<times> state) \<Rightarrow> (error + 'b) \<times> state" where
  "seq m f = (case m of (Inl e, s) \<Rightarrow> (Inl e, s) | (Inr x, s) \<Rightarrow> f x s)"

text \<open>
  A run of \<^verbatim>\<open>"dst": v.get("src", default)\<close> items of a dictionary display, in order.
\<close>

fun get_fields :: "pyval \<Rightarrow> (string \<times> string \<times> pyval) list \<Rightarrow> error + pydict" where
  "get_fields v [] = Inr []"
| "get_fields v ((dst, src, dflt) # fs) =
     and_then (get_method v src dflt) (\<lambda>x.
     and_then (get_fields v fs) (\<lambda>r. Inr ((dst, x) # r)))"

section \<open>\<^verbatim>\<open>fetch_teams\<close>\<close>

text \<open>Lines 53 to 72 of the source: the items before \<^verbatim>\<open>reg_ot_wins\<close>.\<close>

definition record_fields_1 :: "(string \<times> string \<times> pyval) list" where
  "record_fields_1 =
    [(''wins'', ''wins'', PNone),
     (''losses'', ''losses'', PNone),
     (''ot_losses'', ''otLosses'', PNone),
     (''games_played'', ''gamesPlayed'', PNone),
     (''points'', ''points'', PNone),
     (''point_pctg'', ''pointPctg'', PNone),
     (''win_pctg'', ''winPctg'', PNone),
     (''clinch'', ''clinchIndicator'', PStr []),
     (''goals_for'', ''goalFor'', PNone),
     (''goals_against'', ''goalAgainst'', PNone),
     (''goal_diff'', ''goalDifferential'', PNone),
     (''streak_type'', ''streakCode'', PStr []),
     (''streak_length'', ''streakCount'', PNone),
     (''regulation_wins'', ''regulationWins'', PNone)]"

text \<open>Lines 74 to 103: the items after it.\<close>

definition record_fields_2 :: "(string \<times> string \<times> pyval) list" where
  "record_fields_2 =
    [(''shootout_wins'', ''shootoutWins'', PNone),
     (''shootout_losses'', ''shootoutLosses'', PNone),
     (''home_games_played'', ''homeGamesPlayed'', PNone),
     (''home_wins'', ''homeWins'', PNone),
     (''home_losses'', ''homeLosses'', PNone),
     (''home_ot_losses'', ''homeOtLosses'', PNone),
     (''home_points'', ''homePoints'', PNone),
     (''home_goals_for'', ''homeGoalsFor'', PNone),
     (''home_goals_against'', ''homeGoalsAgainst'', PNone),
     (''home_goal_diff'', ''homeGoalDifferential'', PNone),
     (''road_games_played'', ''roadGamesPlayed'', PNone),
     (''road_wins'', ''roadWins'', PNone),
     (''road_losses'', ''roadLosses'', PNone),
     (''road_ot_losses'', ''roadOtLosses'', PNone),
     (''road_points'', ''roadPoints'', PNone),
     (''road_goals_for'', ''roadGoalsFor'', PNone),
     (''road_goals_against'', ''roadGoalsAgainst'', PNone),
     (''road_goal_diff'', ''roadGoalDifferential'', PNone),
     (''l10_wins'', ''l10Wins'', PNone),
     (''l10_losses'', ''l10Losses'', PNone),
     (''l10_ot_losses'', ''l10OtLosses'', PNone),
     (''l10_points'', ''l10Points'', PNone),
     (''l10_goals_for'', ''l10GoalsFor'', PNone),
     (''l10_goals_against'', ''l10GoalsAgainst'', PNone),
     (''l10_goal_diff'', ''l10GoalDifferential'', PNone)]"

text \<open>
  Line 73: \<^verbatim>\<open>entry.get("regulationPlusOtWins") - entry.get("regulationWins")\<close>.
\<close>

definition reg_ot_wins :: "runtime \<Rightarrow> pyval \<Rightarrow> error + pyval" where
  "reg_ot_wins rt entry =
     and_then (get_method entry ''regulationPlusOtWins'' PNone) (\<lambda>a.
     and_then (get_method entry ''regulationWins'' PNone) (\<lambda>b.
     py_sub rt a b))"

text \<open>
  Lines 44 to 104: \<^verbatim>\<open>team_abbr\<close> and the dictionary \<^verbatim>\<open>team_data\<close>, its items
  evaluated in the order they are written.
\<close>

definition team_data :: "runtime \<Rightarrow> pyval \<Rightarrow> error + pyval \<times> pydict" where
  "team_data rt entry =
     and_then (and_then (subscript entry ''teamAbbrev'') (\<lambda>x. subscript x ''default'')) (\<lambda>team_abbr.
     and_then (and_then (subscript entry ''teamName'') (\<lambda>x. subscript x ''default'')) (\<lambda>team_name.
     and_then (subscript entry ''conferenceName'') (\<lambda>conference.
     and_then (subscript entry ''divisionName'') (\<lambda>division.
     and_then (subscript entry ''teamLogo'') (\<lambda>logo.
     and_then (get_fields entry record_fields_1) (\<lambda>r1.
     and_then (reg_ot_wins rt entry) (\<lambda>d.
     and_then (get_fields entry record_fields_2) (\<lambda>r2.
       Inr (team_abbr,
            [(''team_abbr'', team_abbr),
             (''team_name'', team_name),
             (''conference'', conference),
             (''division'', division),
             (''logo'', logo)] @ r1 @ [(''reg_ot_wins'', d)] @ r2)))))))))"

definition cayenne_expr :: "runtime \<Rightarrow> pyval \<Rightarrow> string" where
  "cayenne_expr rt team_abbr =
     quote rt (''teamAbbrev='' @ [CHR 0x27] @ fmt rt team_abbr @ [CHR 0x27] @
               '' and seasonId='' @ SEASON_ID_OFFSEASON)"

definition stats_url :: "string \<Rightarrow> string \<Rightarrow> string" where
  "stats_url report ce = ''https://api.nhle.com/stats/rest/en/team/'' @ report @ ''?cayenneExp='' @ ce"

definition powerplay_fields :: "(string \<times> string \<times> pyval) list" where
  "powerplay_fields =
    [(''power_play_pct'', ''powerPlayPct'', PNone),
     (''power_play_goals'', ''powerPlayGoalsFor'', PNone),
     (''pp_goals_per_game'', ''ppGoalsPerGame'', PNone),
     (''pp_opportunities'', ''ppOpportunities'', PNone),
     (''sh_goals_against'', ''shGoalsAgainst'', PNone),
     (''pp_net_goals'', ''ppNetGoals'', PNone)]"

definition goalsbyperiod_fields :: "(string \<times> string \<times> pyval) list" where
  "goalsbyperiod_fields =
    [(''period1GoalsFor'', ''period1GoalsFor'', PNone),
     (''period2GoalsFor'', ''period2GoalsFor'', PNone),
     (''period3GoalsFor'', ''period3GoalsFor'', PNone),
     (''periodOtGoalsFor'', ''periodOtGoalsFor'', PNone),
     (''period1GoalsAgainst'', ''period1GoalsAgainst'', PNone),
     (''period2GoalsAgainst'', ''period2GoalsAgainst'', PNone),
     (''period3GoalsAgainst'', ''period3GoalsAgainst'', PNone),
     (''periodOtGoalsAgainst'', ''periodOtGoalsAgainst'', PNone)]"

definition faceoff_fields :: "(string \<times> string \<times> pyval) list" where
  "faceoff_fields =
    [(''faceoff_win_pct'', ''faceoffWinPct'', PNone),
     (''defensive_zone_faceoff_pct'', ''defensiveZoneFaceoffPct'', PNone),
     (''neutral_zone_faceoff_pct'', ''neutralZoneFaceoffPct'', PNone),
     (''offensive_zone_faceoff_pct'', ''offensiveZoneFaceoffPct'', PNone),
     (''pp_faceoff_pct'', ''ppFaceoffPct'', PNone),
     (''sh_faceoff_pct'', ''shFaceoffPct'', PNone),
     (''total_faceoffs'', ''totalFaceoffs'', PNone)]"

text \<open>
  The body of an \<^verbatim>\<open>if\<close> of lines 112, 126 and 143:
  \<^verbatim>\<open>row = payload["data"][0]; team_data.update({...})\<close>.
\<close>

definition merge_first_row ::
  "(string \<times> string \<times> pyval) list \<Rightarrow> pyval \<Rightarrow> pydict \<Rightarrow> error + pydict" where
  "merge_first_row flds payload td =
     and_then (subscript payload ''data'') (\<lambda>rows.
     and_then (subscript0 rows) (\<lambda>row.
     and_then (get_fields row flds) (\<lambda>upd.
       Inr (dict_update td upd))))"

text \<open>Lines 112 to 121: \<^verbatim>\<open>if pp_data and pp_data["data"]:\<close>.\<close>

definition merge_powerplay :: "pyval \<Rightarrow> pydict \<Rightarrow> error + pydict" where
  "merge_powerplay pp_data td =
     (if \<not> truthy pp_data then Inr td
      else and_then (subscript pp_data ''data'') (\<lambda>rows.
           if \<not> truthy rows then Inr td
           else merge_first_row powerplay_fields pp_data td))"

text \<open>Lines 126 to 137: \<^verbatim>\<open>if gbp and gbp.get("data"):\<close>.\<close>

definition merge_goalsbyperiod :: "pyval \<Rightarrow> pydict \<Rightarrow> error + pydict" where
  "merge_goalsbyperiod gbp td =
     (if \<not> truthy gbp then Inr td
      else and_then (get_method gbp ''data'' PNone) (\<lambda>rows.
           if \<not> truthy rows then Inr td
           else merge_first_row goalsbyperiod_fields gbp td))"

text \<open>Lines 143 to 153: \<^verbatim>\<open>if foz and foz.get("data"):\<close>.\<close>

definition merge_faceoff :: "pyval \<Rightarrow> pydict \<Rightarrow> error + pydict" where
  "merge_faceoff foz td =
     (if \<not> truthy foz then Inr td
      else and_then (get_method foz ''data'' PNone) (\<lambda>rows.
           if \<not> truthy rows then Inr td
           else merge_first_row faceoff_fields foz td))"

text \<open>The body of the loop of line 43, from an entry to the row appended to \<^verbatim>\<open>teams\<close>.\<close>

definition team_entry ::
  "runtime \<Rightarrow> world \<Rightarrow> pyval \<Rightarrow> state \<Rightarrow> (error + pydict) \<times> state" where
  "team_entry rt W entry s =
     seq (team_data rt entry, s) (\<lambda>(team_abbr, td) s.
     seq (fetch_json W (stats_url ''powerplay'' (cayenne_expr rt team_abbr)) s) (\<lambda>pp_data s.
     seq (merge_powerplay pp_data td, s) (\<lambda>td s.
     seq (fetch_json W (stats_url ''goalsbyperiod'' (cayenne_expr rt team_abbr)) s) (\<lambda>gbp s.
     seq (merge_goalsbyperiod gbp td, s) (\<lambda>td s.
     seq (fetch_json W (stats_url ''faceoffpercentages'' (cayenne_expr rt team_abbr)) s) (\<lambda>foz s.
     seq (merge_faceoff foz td, s) (\<lambda>td s.
       (Inr td, s))))))))"

fun teams_loop ::
  "runtime \<Rightarrow> world \<Rightarrow> pyval list \<Rightarrow> pydict list \<Rightarrow> state \<Rightarrow> (error + pydict list) \<times> state" where
  "teams_loop rt W [] teams s = (Inr teams, s)"
| "teams_loop rt W (entry # rest) teams s =
     seq (team_entry rt W entry s) (\<lambda>td s. teams_loop rt W rest (teams @ [td]) s)"

text \<open>
  A \<^verbatim>\<open>pandas.DataFrame\<close> built from a list of dictionaries is the list of its rows;
  \<^verbatim>\<open>pd.DataFrame()\<close> has none.
\<close>

definition fetch_teams :: "runtime \<Rightarrow> world \<Rightarrow> state \<Rightarrow> (error + pydict list) \<times> state" where
  "fetch_teams rt W s =
     seq (fetch_json W (BASE_URL @ ''/standings/now'') s) (\<lambda>data s.
       if \<not> truthy data then (Inr [], s)
       else seq (and_then (get_method data ''standings'' (PList [])) py_iter, s) (\<lambda>entries s.
            teams_loop rt W entries [] s))"

section \<open>\<^verbatim>\<open>fetch_team_roster\<close>\<close>

text \<open>
  \<^verbatim>\<open>team_abbr.lower()\<close> needs a string. In \<^verbatim>\<open>a + b + c\<close> the sum \<^verbatim>\<open>a + b\<close> is
  computed before \<^verbatim>\<open>c\<close> is evaluated.
\<close>

definition fetch_team_roster ::
  "runtime \<Rightarrow> world \<Rightarrow> pyval \<Rightarrow> state \<Rightarrow> (error + pyval) \<times> state" where
  "fetch_team_roster rt W team_abbr s =
     (case team_abbr of
        PStr a \<Rightarrow>
          seq (fetch_json W (BASE_URL @ ''/roster/'' @ lower rt a @ ''/'' @ SEASON_ID) s) (\<lambda>data s.
            if \<not> truthy data then (Inr (PList []), s)
            else (and_then (get_method data ''forwards'' (PList [])) (\<lambda>fwd.
                  and_then (get_method data ''defensemen'' (PList [])) (\<lambda>def.
                  and_then (py_add rt fwd def) (\<lambda>fd.
                  and_then (get_method data ''goalies'' (PList [])) (\<lambda>gol.
                  py_add rt fd gol)))), s))
      | _ \<Rightarrow> (Inl AttributeError, s))"

section \<open>\<^verbatim>\<open>fetch_player_stats\<close>\<close>

text \<open>
  Line 181: \<^verbatim>\<open>{2: "regular", 3: "playoffs"}.get(game_type, "other")\<close>. The lookup hashes
  its key: a list or a dictionary is unhashable and raises \<^verbatim>\<open>TypeError\<close>. The floats
  \<open>2.0\<close> and \<open>3.0\<close> are equal to the keys \<open>2\<close> and \<open>3\<close> and hash as they do;
  \<^verbatim>\<open>True\<close> and \<^verbatim>\<open>False\<close> are \<open>1\<close> and \<open>0\<close>.
\<close>

definition season_type :: "pyval \<Rightarrow> error + string" where
  "season_type game_type =
     (case game_type of
        PInt i \<Rightarrow> Inr (if i = 2 then ''regular'' else if i = 3 then ''playoffs'' else ''other'')
      | PFloat w \<Rightarrow> Inr (if w = 0x4000000000000000 then ''regular''
                         else if w = 0x4008000000000000 then ''playoffs'' else ''other'')
      | PList xs \<Rightarrow> Inl TypeError
      | PDict d \<Rightarrow> Inl TypeError
      | _ \<Rightarrow> Inr ''other'')"

text \<open>\<^verbatim>\<open>v.update(other)\<close>: only a dictionary has the attribute.\<close>

fun update_method :: "pyval \<Rightarrow> pydict \<Rightarrow> error + pydict" where
  "update_method (PDict d) other = Inr (dict_update d other)"
| "update_method _ other = Inl AttributeError"

text \<open>Lines 180 to 191: the body of the loop over the season totals.\<close>

definition season_row :: "pyval \<Rightarrow> string \<Rightarrow> pyval \<Rightarrow> pyval \<Rightarrow> error + pydict" where
  "season_row player_id full_name position season =
     and_then (get_method season ''gameTypeId'' PNone) (\<lambda>game_type.
     and_then (season_type game_type) (\<lambda>st.
     and_then (get_method season ''teamName'' PNone) (\<lambda>team.
     update_method season
       [(''player_id'', player_id),
        (''player'', PStr full_name),
        (''team'', team),
        (''type'', PStr st),
        (''season_scope'', PStr ''season''),
        (''positionCode'', position)])))"

fun seasons_loop ::
  "pyval \<Rightarrow> string \<Rightarrow> pyval \<Rightarrow> pyval list \<Rightarrow> pydict list \<Rightarrow> error + pydict list" where
  "seasons_loop player_id full_name position [] stats = Inr stats"
| "seasons_loop player_id full_name position (season # rest) stats =
     and_then (season_row player_id full_name position season) (\<lambda>row.
     seasons_loop player_id full_name position rest (stats @ [row]))"

text \<open>Lines 195 to 205: the body of the loop over the two career keys.\<close>

definition career_row ::
  "pyval \<Rightarrow> string \<Rightarrow> pyval \<Rightarrow> pyval \<Rightarrow> pyval \<Rightarrow> string \<Rightarrow> string \<Rightarrow> pydict list
     \<Rightarrow> error + pydict list" where
  "career_row player_id full_name team_name position data key label stats =
     and_then (get_method data ''careerTotals'' (PDict [])) (\<lambda>totals.
     and_then (get_method totals key PNone) (\<lambda>career.
       if truthy career then
         and_then (update_method career
           [(''player_id'', player_id),
            (''player'', PStr full_name),
            (''team'', team_name),
            (''type'', PStr label),
            (''season_scope'', PStr ''career''),
            (''positionCode'', position)]) (\<lambda>row. Inr (stats @ [row]))
       else Inr stats))"

definition fetch_player_stats ::
  "runtime \<Rightarrow> world \<Rightarrow> pyval \<Rightarrow> string \<Rightarrow> pyval \<Rightarrow> pyval \<Rightarrow> state
     \<Rightarrow> (error + pydict list) \<times> state" where
  "fetch_player_stats rt W player_id full_name team_name position s =
     seq (fetch_json W (BASE_URL @ ''/player/'' @ fmt rt player_id @ ''/landing'') s) (\<lambda>data s.
       if \<not> truthy data then (Inr [], s)
       else (and_then (and_then (get_method data ''seasonTotals'' (PList [])) py_iter) (\<lambda>seasons.
             and_then (seasons_loop player_id full_name position seasons []) (\<lambda>stats.
             and_then (career_row player_id full_name team_name position data
                         ''regularSeason'' ''regular'' stats) (\<lambda>stats.
             career_row player_id full_name team_name position data
               ''playoffs'' ''playoffs'' stats))), s))"

section \<open>\<^verbatim>\<open>build_rosters_and_stats\<close>\<close>

text \<open>Lines 223 to 239: the body of the loop over the players of a team.\<close>

definition player_step ::
  "runtime \<Rightarrow> world \<Rightarrow> pyval \<Rightarrow> pyval \<Rightarrow> pyval \<Rightarrow> pydict list \<times> pydict list \<Rightarrow> state
     \<Rightarrow> (error + pydict list \<times> pydict list) \<times> state" where
  "player_step rt W team_name team_abbr player acc s =
     seq (and_then (subscript player ''id'') (\<lambda>player_id.
          and_then (and_then (subscript player ''firstName'') (\<lambda>x. subscript x ''default'')) (\<lambda>first.
          and_then (and_then (subscript player ''lastName'') (\<lambda>x. subscript x ''default'')) (\<lambda>last.
          and_then (subscript player ''positionCode'') (\<lambda>position.
          and_then (get_method player ''sweaterNumber'' (PStr ''N/A'')) (\<lambda>sweater.
          and_then (get_method player ''headshot'' PNone) (\<lambda>mug.
            Inr (player_id, fmt rt first @ '' '' @ fmt rt last, position, sweater, mug))))))), s)
       (\<lambda>(player_id, full_name, position, sweater, mug) s.
     seq (fetch_player_stats rt W player_id full_name team_name position s) (\<lambda>stats s.
       (Inr (fst acc @
               [[(''player_id'', player_id),
                 (''player'', PStr full_name),
                 (''positionCode'', position),
                 (''sweaterNumber'', sweater),
                 (''team'', team_name),
                 (''team_abbr'', team_abbr),
                 (''headshot'', mug)]],
             snd acc @ stats), s)))"

fun players_loop ::
  "runtime \<Rightarrow> world \<Rightarrow> pyval \<Rightarrow> pyval \<Rightarrow> pyval list \<Rightarrow> pydict list \<times> pydict list \<Rightarrow> state
     \<Rightarrow> (error + pydict list \<times> pydict list) \<times> state" where
  "players_loop rt W team_name team_abbr [] acc s = (Inr acc, s)"
| "players_loop rt W team_name team_abbr (player # rest) acc s =
     seq (player_step rt W team_name team_abbr player acc s) (\<lambda>acc s.
     players_loop rt W team_name team_abbr rest acc s)"

text \<open>
  Lines 216 to 241: the body of the loop over the rows of the team table. A cell read
  back from the table is the value the row was built with. \<^verbatim>\<open>time.sleep\<close> changes
  nothing that is observed here.
\<close>

definition team_step ::
  "runtime \<Rightarrow> world \<Rightarrow> pydict \<Rightarrow> pydict list \<times> pydict list \<Rightarrow> state
     \<Rightarrow> (error + pydict list \<times> pydict list) \<times> state" where
  "team_step rt W team acc s =
     seq (subscript (PDict team) ''team_abbr'', s) (\<lambda>team_abbr s.
     seq (subscript (PDict team) ''team_name'', s) (\<lambda>team_name s.
     seq (fetch_team_roster rt W team_abbr (print (InfoRoster (fmt rt team_name)) s)) (\<lambda>players s.
     seq (py_iter players, s) (\<lambda>ps s.
     players_loop rt W team_name team_abbr ps acc s))))"

fun build_loop ::
  "runtime \<Rightarrow> world \<Rightarrow> pydict list \<Rightarrow> pydict list \<times> pydict list \<Rightarrow> state
     \<Rightarrow> (error + pydict list \<times> pydict list) \<times> state" where
  "build_loop rt W [] acc s = (Inr acc, s)"
| "build_loop rt W (team # rest) acc s =
     seq (team_step rt W team acc s) (\<lambda>acc s. build_loop rt W rest acc s)"

definition build_rosters_and_stats ::
  "runtime \<Rightarrow> world \<Rightarrow> pydict list \<Rightarrow> state \<Rightarrow> (error + pydict list \<times> pydict list) \<times> state" where
  "build_rosters_and_stats rt W teams_df s = build_loop rt W teams_df ([], []) s"

section \<open>\<^verbatim>\<open>export_to_csv\<close> and \<^verbatim>\<open>main\<close>\<close>

text \<open>\<^verbatim>\<open>df.empty\<close>: the table has no row or no column.\<close>

definition df_empty :: "pydict list \<Rightarrow> bool" where
  "df_empty df = (df = [] \<or> concat df = [])"

text \<open>\<^verbatim>\<open>df.to_csv\<close> writes the file anew; then one line is printed.\<close>

definition export_to_csv :: "pydict list \<Rightarrow> string \<Rightarrow> state \<Rightarrow> state" where
  "export_to_csv df filename s =
     print (Exported filename (length df))
       (s\<lparr>files := filter (\<lambda>(name, rows). name \<noteq> filename) (files s) @ [(filename, df)]\<rparr>)"

text \<open>\<^verbatim>\<open>os.path.join\<close>, with the separator of POSIX.\<close>

definition path_join :: "string \<Rightarrow> string \<Rightarrow> string" where
  "path_join a b = a @ ''/'' @ b"

definition makedirs :: "string \<Rightarrow> state \<Rightarrow> state" where
  "makedirs d s = s\<lparr>dirs := dirs s @ [d]\<rparr>"

definition main :: "runtime \<Rightarrow> world \<Rightarrow> state \<Rightarrow> (error + unit) \<times> state" where
  "main rt W s =
     seq (fetch_teams rt W (print Starting s)) (\<lambda>teams_df s.
       if df_empty teams_df then (Inr (), print NoTeams s)
       else
         seq (build_rosters_and_stats rt W teams_df s) (\<lambda>(rosters_df, stats_df) s.
           (Inr (),
            print Success
             (export_to_csv stats_df (path_join DATA_FOLDER ''player_stats.csv'')
             (export_to_csv rosters_df (path_join DATA_FOLDER ''rosters.csv'')
             (export_to_csv teams_df (path_join DATA_FOLDER ''teams.csv'')
             (if DATA_FOLDER \<in> set (dirs s) then s else makedirs DATA_FOLDER s)))))))"

section \<open>Shapes of payloads\<close>

text \<open>
  A payload of the statistics service that the three merges of \<^verbatim>\<open>fetch_teams\<close> all
  accept: a falsy value, or a dictionary whose \<^verbatim>\<open>"data"\<close> is falsy or a list that
  starts with a dictionary.
\<close>

definition first_is_dict :: "pyval \<Rightarrow> bool" where
  "first_is_dict rows = (case rows of PList (PDict r # rest) \<Rightarrow> True | _ \<Rightarrow> False)"

definition stats_payload_ok :: "pyval \<Rightarrow> bool" where
  "stats_payload_ok p =
     (if truthy p then
        (case p of
           PDict d \<Rightarrow> (case map_of d ''data'' of
                         Some rows \<Rightarrow> (if truthy rows then first_is_dict rows else True)
                       | None \<Rightarrow> False)
         | _ \<Rightarrow> False)
      else True)"

definition stats_ok :: "response \<Rightarrow> bool" where
  "stats_ok r = (case fetch_json_try r of Inl e \<Rightarrow> True | Inr p \<Rightarrow> stats_payload_ok p)"

text \<open>The columns of a row of \<^verbatim>\<open>team_data\<close>, in order.\<close>

definition team_columns :: "string list" where
  "team_columns = [''team_abbr'', ''team_name'', ''conference'', ''division'', ''logo''] @
     map fst record_fields_1 @ [''reg_ot_wins''] @ map fst record_fields_2"

section \<open>Example inputs\<close>

text \<open>
  A runtime for the examples. None of them runs float arithmetic or formats a value that
  is not a string, and their worlds answer by the number of the request, not by the text
  of the URL.
\<close>

definition stub_runtime :: runtime where
  "stub_runtime =
     \<lparr>float_arith = (\<lambda>ope x y. Inl OverflowError), str_of = (\<lambda>v. ''?''),
      lower = (\<lambda>s. s), quote = (\<lambda>s. s)\<rparr>"

text \<open>The world whose \<open>n\<close>-th request gets the \<open>n\<close>-th response of a list, and none after.\<close>

definition seq_world :: "response list \<Rightarrow> world" where
  "seq_world rs = (\<lambda>n url. if n < length rs then rs ! n else NoResponse)"

definition state0 :: state where
  "state0 = \<lparr>calls = 0, out = [], dirs = [], files = []\<rparr>"

definition identity_items :: pydict where
  "identity_items =
     [(''teamAbbrev'', PDict [(''default'', PStr ''TOR'')]),
      (''teamName'', PDict [(''default'', PStr ''Toronto Maple Leafs'')]),
      (''conferenceName'', PStr ''Eastern''),
      (''divisionName'', PStr ''Atlantic''),
      (''teamLogo'', PStr ''TOR.svg'')]"

definition entry_full :: pyval where
  "entry_full = PDict (identity_items @
     [(''wins'', PInt 52), (''regulationPlusOtWins'', PInt 40), (''regulationWins'', PInt 30)])"

definition entry_no_regulation_wins :: pyval where
  "entry_no_regulation_wins = PDict (identity_items @
     [(''wins'', PInt 52), (''regulationPlusOtWins'', PInt 40)])"

definition entry_no_logo :: pyval where
  "entry_no_logo = PDict (take 4 identity_items @
     [(''wins'', PInt 52), (''regulationPlusOtWins'', PInt 40), (''regulationWins'', PInt 30)])"

definition standings_of :: "pyval list \<Rightarrow> response" where
  "standings_of entries = Response 200 (Some (PDict [(''standings'', PList entries)]))"

definition powerplay_no_data :: pyval where
  "powerplay_no_data = PDict [(''total'', PInt 0)]"

definition no_rows :: pyval where
  "no_rows = PDict [(''data'', PList []), (''total'', PInt 0)]"

definition season_with_list_code :: pyval where
  "season_with_list_code = PDict [(''season'', PInt 20232024), (''gameTypeId'', PList [])]"

text \<open>The tags of a row of the statistics table.\<close>

definition row_tags :: "pydict \<Rightarrow> pyval \<times> pyval" where
  "row_tags r = (dict_get r ''season_scope'' PNone, dict_get r ''type'' PNone)"

definition landing_example :: pyval where
  "landing_example = PDict
     [(''playerId'', PInt 8478402),
      (''seasonTotals'', PList
         [PDict [(''season'', PInt 20232024), (''gameTypeId'', PInt 2), (''goals'', PInt 32)],
          PDict [(''season'', PInt 20232024), (''gameTypeId'', PInt 3), (''goals'', PInt 8)]]),
      (''careerTotals'', PDict
         [(''regularSeason'', PDict [(''goals'', PInt 335)]),
          (''playoffs'', PDict [(''goals'', PInt 37)])])]"

definition roster_example :: pyval where
  "roster_example = PDict
     [(''forwards'', PList [PDict [(''id'', PInt 1)], PDict [(''id'', PInt 2)]]),
      (''defensemen'', PList [PDict [(''id'', PInt 3)]]),
      (''goalies'', PList [PDict [(''id'', PInt 4)]])]"

definition entry_second :: pyval where
  "entry_second = PDict
     [(''teamAbbrev'', PDict [(''default'', PStr ''MTL'')]),
      (''teamName'', PDict [(''default'', PStr ''Montreal Canadiens'')]),
      (''conferenceName'', PStr ''Eastern''),
      (''divisionName'', PStr ''Atlantic''),
      (''teamLogo'', PStr ''MTL.svg''),
      (''regulationPlusOtWins'', PInt 35), (''regulationWins'', PInt 28)]"

text \<open>The world whose first request gets one response and every later request another.\<close>

definition first_then :: "response \<Rightarrow> response \<Rightarrow> world" where
  "first_then r0 r = (\<lambda>n url. if n = 0 then r0 else r)"

text \<open>The world that answers by the URL alone; a URL that is not listed gets no response.\<close>

definition url_world :: "(string \<times> response) list \<Rightarrow> world" where
  "url_world tbl = (\<lambda>n url. case map_of tbl url of None \<Rightarrow> NoResponse | Some r \<Rightarrow> r)"

definition player_example :: pyval where
  "player_example = PDict
     [(''id'', PInt 8479318),
      (''firstName'', PDict [(''default'', PStr ''Auston'')]),
      (''lastName'', PDict [(''default'', PStr ''Matthews'')]),
      (''positionCode'', PStr ''C''),
      (''sweaterNumber'', PInt 34)]"

definition roster_one_forward :: pyval where
  "roster_one_forward = PDict
     [(''forwards'', PList [player_example]), (''defensemen'', PList []), (''goalies'', PList [])]"

definition landing_one_season :: pyval where
  "landing_one_season = PDict
     [(''seasonTotals'', PList
         [PDict [(''season'', PInt 20232024), (''gameTypeId'', PInt 2), (''goals'', PInt 69)]])]"

text \<open>One team, one forward on its roster, one regular season in his profile.\<close>

definition one_team_world :: world where
  "one_team_world = url_world
     [(BASE_URL @ ''/standings/now'', standings_of [entry_full]),
      (BASE_URL @ ''/roster/'' @ lower stub_runtime ''TOR'' @ ''/'' @ SEASON_ID,
       Response 200 (Some roster_one_forward)),
      (BASE_URL @ ''/player/'' @ fmt stub_runtime (PInt 8479318) @ ''/landing'',
       Response 200 (Some landing_one_season))]"

section \<open>Basic facts\<close>

lemma and_then_Inr [simp]: "and_then (Inr x) f = f x"
  by (simp add: and_then_def)

lemma and_then_Inl [simp]: "and_then (Inl e) f = Inl e"
  by (simp add: and_then_def)

lemma seq_Inr [simp]: "seq (Inr x, s) f = f x s"
  by (simp add: seq_def)

lemma seq_Inl [simp]: "seq (Inl e, s) f = (Inl e, s)"
  by (simp add: seq_def)

lemma and_then_eq_Inr: "and_then m f = Inr y \<longleftrightarrow> (\<exists>x. m = Inr x \<and> f x = Inr y)"
  by (cases m) auto

lemma subscript_eq_Inr: "subscript v k = Inr x \<longleftrightarrow> (\<exists>d. v = PDict d \<and> map_of d k = Some x)"
  by (cases v) (auto split: option.splits)

lemma map_of_dict_set: "map_of (dict_set d k v) = (map_of d)(k \<mapsto> v)"
  by (induction d) (auto simp: fun_eq_iff)

lemma dict_set_append:
  "k \<notin> fst ` set d \<Longrightarrow> dict_set (d @ d') k v = d @ dict_set d' k v"
  by (induction d) auto

lemma fold_dict_set_append:
  "fst ` set other \<inter> fst ` set d = {} \<Longrightarrow>
   fold (\<lambda>(k, v) acc. dict_set acc k v) other (d @ d') =
   d @ fold (\<lambda>(k, v) acc. dict_set acc k v) other d'"
  by (induction other arbitrary: d') (auto simp: dict_set_append)

lemma dict_update_append:
  "fst ` set other \<inter> fst ` set d = {} \<Longrightarrow>
   dict_update (d @ d') other = d @ dict_update d' other"
  by (simp add: dict_update_def fold_dict_set_append)

lemma map_of_fold_dict_set:
  "map_of (fold (\<lambda>(k, v) acc. dict_set acc k v) other d) = map_of d ++ map_of (rev other)"
  by (induction other arbitrary: d)
     (auto simp: map_of_dict_set fun_eq_iff map_add_def split: option.splits)

lemma map_of_dict_update: "map_of (dict_update d other) = map_of d ++ map_of (rev other)"
  by (simp add: dict_update_def map_of_fold_dict_set)

lemma get_fields_dict:
  "get_fields (PDict e) flds = Inr (map (\<lambda>(dst, src, dflt). (dst, dict_get e src dflt)) flds)"
  by (induction flds) auto

section \<open>The fetcher\<close>

lemma fetch_json_try_fails:
  "(\<exists>e. fetch_json_try r = Inl e) \<longleftrightarrow>
     (r = NoResponse \<or> (\<exists>st b. r = Response st b \<and> (400 \<le> st \<and> st < 600 \<or> b = None)))"
  by (auto simp: fetch_json_try_def split: response.splits option.splits)

lemma fetch_json_Inr:
  "\<exists>v s'. fetch_json W url s = (Inr v, s') \<and> calls s' = Suc (calls s) \<and>
     dirs s' = dirs s \<and> files s' = files s"
  by (simp add: fetch_json_def print_def Let_def split: sum.splits)



section \<open>The team row\<close>

lemma reg_ot_wins_ints:
  "map_of e ''regulationPlusOtWins'' = Some (PInt a) \<Longrightarrow>
   map_of e ''regulationWins'' = Some (PInt b) \<Longrightarrow>
   reg_ot_wins rt (PDict e) = Inr (PInt (a - b))"
  by (simp add: reg_ot_wins_def dict_get_def py_sub_def num_op_def)

lemma reg_ot_wins_missing:
  "map_of e ''regulationPlusOtWins'' = None \<or> map_of e ''regulationWins'' = None \<Longrightarrow>
   reg_ot_wins rt (PDict e) = Inl TypeError"
  by (auto simp: reg_ot_wins_def dict_get_def py_sub_def split: option.splits)

lemma team_data_Inr:
  assumes "map_of e ''teamAbbrev'' = Some (PDict ta)" "map_of ta ''default'' = Some abbr"
    and "map_of e ''teamName'' = Some (PDict tn)" "map_of tn ''default'' = Some name"
    and "map_of e ''conferenceName'' = Some conf" "map_of e ''divisionName'' = Some dv"
    and "map_of e ''teamLogo'' = Some logo"
    and "reg_ot_wins rt (PDict e) = Inr d"
  shows "team_data rt (PDict e) =
     Inr (abbr,
       [(''team_abbr'', abbr), (''team_name'', name), (''conference'', conf),
        (''division'', dv), (''logo'', logo)] @
       map (\<lambda>(dst, src, dflt). (dst, dict_get e src dflt)) record_fields_1 @
       [(''reg_ot_wins'', d)] @
       map (\<lambda>(dst, src, dflt). (dst, dict_get e src dflt)) record_fields_2)"
  using assms by (simp add: team_data_def get_fields_dict)

lemma subscript_dict_eq_Inr:
  "(case map_of e k of None \<Rightarrow> Inl KeyError | Some v \<Rightarrow> Inr v) = Inr x \<longleftrightarrow> map_of e k = Some x"
  by (simp split: option.splits)

lemma team_data_shape:
  assumes "team_data rt entry = Inr (abbr, td)"
  shows "\<exists>e name conf dv logo d. entry = PDict e \<and>
       map_of e ''teamAbbrev'' \<noteq> None \<and> map_of e ''teamName'' \<noteq> None \<and>
       map_of e ''conferenceName'' \<noteq> None \<and> map_of e ''divisionName'' \<noteq> None \<and>
       map_of e ''teamLogo'' \<noteq> None \<and> reg_ot_wins rt entry = Inr d \<and>
       td =
       [(''team_abbr'', abbr), (''team_name'', name), (''conference'', conf),
        (''division'', dv), (''logo'', logo)] @
       map (\<lambda>(dst, src, dflt). (dst, dict_get e src dflt)) record_fields_1 @
       [(''reg_ot_wins'', d)] @
       map (\<lambda>(dst, src, dflt). (dst, dict_get e src dflt)) record_fields_2"
proof -
  from assms obtain x where "subscript entry ''teamAbbrev'' = Inr x"
    by (auto simp: team_data_def and_then_eq_Inr)
  then obtain e where e: "entry = PDict e"
    by (auto simp: subscript_eq_Inr)
  from assms show ?thesis
    unfolding e team_data_def get_fields_dict and_then_eq_Inr subscript.simps subscript_dict_eq_Inr
    by auto
qed

lemma distinct_team_columns: "distinct team_columns"
  by (simp add: team_columns_def record_fields_1_def record_fields_2_def)

lemma team_data_columns:
  assumes "team_data rt entry = Inr (abbr, td)"
  shows "map fst td = team_columns"
proof -
  from team_data_shape [OF assms] obtain e name conf dv logo d where
    "td = [(''team_abbr'', abbr), (''team_name'', name), (''conference'', conf),
        (''division'', dv), (''logo'', logo)] @
       map (\<lambda>(dst, src, dflt). (dst, dict_get e src dflt)) record_fields_1 @
       [(''reg_ot_wins'', d)] @
       map (\<lambda>(dst, src, dflt). (dst, dict_get e src dflt)) record_fields_2"
    by blast
  then show ?thesis
    by (simp add: team_columns_def case_prod_unfold comp_def)
qed

lemma team_data_lookup:
  assumes td: "team_data rt (PDict e) = Inr (abbr, row)"
    and f: "(dst, src, dflt) \<in> set (record_fields_1 @ record_fields_2)"
  shows "map_of row dst = Some (dict_get e src dflt)"
proof -
  from team_data_shape [OF td] obtain name conf dv logo d where row:
    "row = [(''team_abbr'', abbr), (''team_name'', name), (''conference'', conf),
        (''division'', dv), (''logo'', logo)] @
       map (\<lambda>(dst, src, dflt). (dst, dict_get e src dflt)) record_fields_1 @
       [(''reg_ot_wins'', d)] @
       map (\<lambda>(dst, src, dflt). (dst, dict_get e src dflt)) record_fields_2"
    by blast
  have "(\<lambda>(dst, src, dflt). (dst, dict_get e src dflt)) (dst, src, dflt)
        \<in> (\<lambda>(dst, src, dflt). (dst, dict_get e src dflt)) ` set (record_fields_1 @ record_fields_2)"
    using f by (rule imageI)
  then have "(dst, dict_get e src dflt) \<in> set row"
    unfolding row by (simp add: image_Un)
  moreover have "distinct (map fst row)"
    using team_data_columns [OF td] distinct_team_columns by simp
  ultimately show ?thesis
    by (rule map_of_is_SomeI [rotated])
qed

lemma team_data_identity_missing:
  assumes "map_of e ''teamAbbrev'' = None \<or> map_of e ''teamName'' = None \<or>
           map_of e ''conferenceName'' = None \<or> map_of e ''divisionName'' = None \<or>
           map_of e ''teamLogo'' = None"
  shows "\<exists>err. team_data rt (PDict e) = Inl err"
proof (cases "team_data rt (PDict e)")
  case (Inl err)
  then show ?thesis by blast
next
  case (Inr r)
  then have "team_data rt (PDict e) = Inr (fst r, snd r)" by simp
  from team_data_shape [OF this] assms show ?thesis by auto
qed

text \<open>
  C1. The derived field of line 73. With both operands integers,
  \<^verbatim>\<open>reg_ot_wins\<close> is their difference (40 and 30 give 10). With
  \<^verbatim>\<open>regulationWins\<close> absent, \<^verbatim>\<open>entry.get\<close> gives \<^verbatim>\<open>None\<close> and the subtraction
  raises \<^verbatim>\<open>TypeError\<close>, which nothing catches: \<^verbatim>\<open>fetch_teams\<close> raises after the one
  request for the standings.
\<close>

theorem reg_ot_wins_missing_operand_raises:
  "reg_ot_wins rt entry_full = Inr (PInt 10) \<and>
   reg_ot_wins rt entry_no_regulation_wins = Inl TypeError \<and>
   team_data rt entry_no_regulation_wins = Inl TypeError \<and>
   fetch_teams rt (seq_world [standings_of [entry_no_regulation_wins]]) state0 =
     (Inl TypeError, state0\<lparr>calls := 1\<rparr>)"
proof -
  have a: "reg_ot_wins rt entry_full = Inr (PInt 10)"
    by (simp add: entry_full_def identity_items_def reg_ot_wins_ints)
  have b: "reg_ot_wins rt entry_no_regulation_wins = Inl TypeError"
    by (simp add: entry_no_regulation_wins_def identity_items_def reg_ot_wins_missing)
  have c: "team_data rt entry_no_regulation_wins = Inl TypeError"
    using b by (simp add: team_data_def entry_no_regulation_wins_def identity_items_def
        get_fields_dict)
  have d: "fetch_teams rt (seq_world [standings_of [entry_no_regulation_wins]]) state0 =
     (Inl TypeError, state0\<lparr>calls := 1\<rparr>)"
    by (simp add: fetch_teams_def fetch_json_def fetch_json_try_def seq_world_def
        standings_of_def state0_def dict_get_def team_entry_def c)
  from a b c d show ?thesis by simp
qed

text \<open>
  C2, as amended. The five identity fields are read by subscript and the record fields by
  \<^verbatim>\<open>entry.get\<close>. When the identity fields are there (\<^verbatim>\<open>teamAbbrev\<close> and
  \<^verbatim>\<open>teamName\<close> as dictionaries with a \<^verbatim>\<open>"default"\<close>) and the subtraction of
  \<^verbatim>\<open>reg_ot_wins\<close> succeeds, the row is built, and each of the 39 record fields holds
  the entry's value, or its default (\<^verbatim>\<open>None\<close>, or \<^verbatim>\<open>""\<close> for
  \<^verbatim>\<open>clinchIndicator\<close> and \<^verbatim>\<open>streakCode\<close>) when the key is absent. When an identity
  key is absent, building the row raises.
\<close>

theorem team_data_record_fields_null_safe:
  "(map_of e ''teamAbbrev'' = Some (PDict ta) \<and> map_of ta ''default'' = Some abbr \<and>
    map_of e ''teamName'' = Some (PDict tn) \<and> map_of tn ''default'' = Some name \<and>
    map_of e ''conferenceName'' = Some conf \<and> map_of e ''divisionName'' = Some dv \<and>
    map_of e ''teamLogo'' = Some logo \<and> reg_ot_wins rt (PDict e) = Inr d \<longrightarrow>
    (\<exists>row. team_data rt (PDict e) = Inr (abbr, row) \<and>
       (\<forall>(dst, src, dflt)\<in>set (record_fields_1 @ record_fields_2).
          map_of row dst = Some (case map_of e src of None \<Rightarrow> dflt | Some v \<Rightarrow> v)))) \<and>
   (map_of e ''teamAbbrev'' = None \<or> map_of e ''teamName'' = None \<or>
    map_of e ''conferenceName'' = None \<or> map_of e ''divisionName'' = None \<or>
    map_of e ''teamLogo'' = None \<longrightarrow>
    (\<exists>err. team_data rt (PDict e) = Inl err))"
proof (intro conjI impI)
  assume a: "map_of e ''teamAbbrev'' = Some (PDict ta) \<and> map_of ta ''default'' = Some abbr \<and>
    map_of e ''teamName'' = Some (PDict tn) \<and> map_of tn ''default'' = Some name \<and>
    map_of e ''conferenceName'' = Some conf \<and> map_of e ''divisionName'' = Some dv \<and>
    map_of e ''teamLogo'' = Some logo \<and> reg_ot_wins rt (PDict e) = Inr d"
  then obtain row where row: "team_data rt (PDict e) = Inr (abbr, row)"
    using team_data_Inr [of e ta abbr tn name conf dv logo rt d] by blast
  have "\<forall>(dst, src, dflt)\<in>set (record_fields_1 @ record_fields_2).
          map_of row dst = Some (case map_of e src of None \<Rightarrow> dflt | Some v \<Rightarrow> v)"
    using team_data_lookup [OF row] by (auto simp: dict_get_def)
  with row show "\<exists>row. team_data rt (PDict e) = Inr (abbr, row) \<and>
       (\<forall>(dst, src, dflt)\<in>set (record_fields_1 @ record_fields_2).
          map_of row dst = Some (case map_of e src of None \<Rightarrow> dflt | Some v \<Rightarrow> v))"
    by blast
next
  assume "map_of e ''teamAbbrev'' = None \<or> map_of e ''teamName'' = None \<or>
    map_of e ''conferenceName'' = None \<or> map_of e ''divisionName'' = None \<or>
    map_of e ''teamLogo'' = None"
  then show "\<exists>err. team_data rt (PDict e) = Inl err"
    by (rule team_data_identity_missing)
qed

theorem team_data_absent_logo_raises:
  "team_data stub_runtime entry_no_logo = Inl KeyError"
  by (simp add: entry_no_logo_def identity_items_def team_data_def)

theorem team_data_record_fields_null_safe_witness:
  "(\<exists>row. team_data stub_runtime entry_full = Inr (PStr ''TOR'', row) \<and>
      map_of row ''wins'' = Some (PInt 52) \<and>
      map_of row ''losses'' = Some PNone \<and>
      map_of row ''clinch'' = Some (PStr [])) \<and>
   (\<exists>err. team_data stub_runtime entry_no_logo = Inl err)"
proof -
  let ?e = "identity_items @
     [(''wins'', PInt 52), (''regulationPlusOtWins'', PInt 40), (''regulationWins'', PInt 30)]"
  let ?n = "take 4 identity_items @
     [(''wins'', PInt 52), (''regulationPlusOtWins'', PInt 40), (''regulationWins'', PInt 30)]"
  have hyp: "map_of ?e ''teamAbbrev'' = Some (PDict [(''default'', PStr ''TOR'')]) \<and>
      map_of [(''default'', PStr ''TOR'')] ''default'' = Some (PStr ''TOR'') \<and>
      map_of ?e ''teamName'' = Some (PDict [(''default'', PStr ''Toronto Maple Leafs'')]) \<and>
      map_of [(''default'', PStr ''Toronto Maple Leafs'')] ''default'' =
        Some (PStr ''Toronto Maple Leafs'') \<and>
      map_of ?e ''conferenceName'' = Some (PStr ''Eastern'') \<and>
      map_of ?e ''divisionName'' = Some (PStr ''Atlantic'') \<and>
      map_of ?e ''teamLogo'' = Some (PStr ''TOR.svg'') \<and>
      reg_ot_wins stub_runtime (PDict ?e) = Inr (PInt 10)"
    by (simp add: identity_items_def reg_ot_wins_ints)
  from team_data_record_fields_null_safe
         [of ?e "[(''default'', PStr ''TOR'')]" "PStr ''TOR''"
             "[(''default'', PStr ''Toronto Maple Leafs'')]" "PStr ''Toronto Maple Leafs''"
             "PStr ''Eastern''" "PStr ''Atlantic''" "PStr ''TOR.svg''" stub_runtime "PInt 10"]
       hyp
  obtain row where row: "team_data stub_runtime (PDict ?e) = Inr (PStr ''TOR'', row)"
    and flds: "\<forall>(dst, src, dflt)\<in>set (record_fields_1 @ record_fields_2).
          map_of row dst = Some (case map_of ?e src of None \<Rightarrow> dflt | Some v \<Rightarrow> v)"
    by blast
  have "(''wins'', ''wins'', PNone) \<in> set (record_fields_1 @ record_fields_2)"
    and "(''losses'', ''losses'', PNone) \<in> set (record_fields_1 @ record_fields_2)"
    and "(''clinch'', ''clinchIndicator'', PStr []) \<in> set (record_fields_1 @ record_fields_2)"
    by (simp_all add: record_fields_1_def)
  with flds have
    "map_of row ''wins'' = Some (case map_of ?e ''wins'' of None \<Rightarrow> PNone | Some v \<Rightarrow> v)"
    "map_of row ''losses'' = Some (case map_of ?e ''losses'' of None \<Rightarrow> PNone | Some v \<Rightarrow> v)"
    "map_of row ''clinch'' =
       Some (case map_of ?e ''clinchIndicator'' of None \<Rightarrow> PStr [] | Some v \<Rightarrow> v)"
    by blast+
  then have "map_of row ''wins'' = Some (PInt 52)" "map_of row ''losses'' = Some PNone"
    "map_of row ''clinch'' = Some (PStr [])"
    by (simp_all add: identity_items_def)
  with row have a: "\<exists>row. team_data stub_runtime entry_full = Inr (PStr ''TOR'', row) \<and>
      map_of row ''wins'' = Some (PInt 52) \<and>
      map_of row ''losses'' = Some PNone \<and>
      map_of row ''clinch'' = Some (PStr [])"
    unfolding entry_full_def by blast
  have "map_of ?n ''teamLogo'' = None"
    by (simp add: identity_items_def)
  with team_data_record_fields_null_safe [of ?n _ _ _ _ _ _ _ stub_runtime]
  have b: "\<exists>err. team_data stub_runtime entry_no_logo = Inl err"
    unfolding entry_no_logo_def by blast
  from a b show ?thesis by blast
qed

section \<open>The supplementary statistics\<close>

lemma merge_first_row_dict:
  "map_of d ''data'' = Some (PList (PDict r # rest)) \<Longrightarrow>
   merge_first_row flds (PDict d) td =
     Inr (dict_update td (map (\<lambda>(dst, src, dflt). (dst, dict_get r src dflt)) flds))"
  by (simp add: merge_first_row_def get_fields_dict)

lemma merge_powerplay_first_row:
  "map_of d ''data'' = Some (PList (PDict r # rest)) \<Longrightarrow>
   merge_powerplay (PDict d) td =
     Inr (dict_update td (map (\<lambda>(dst, src, dflt). (dst, dict_get r src dflt)) powerplay_fields))"
  by (auto simp: merge_powerplay_def merge_first_row_dict)

lemma merge_goalsbyperiod_first_row:
  "map_of d ''data'' = Some (PList (PDict r # rest)) \<Longrightarrow>
   merge_goalsbyperiod (PDict d) td =
     Inr (dict_update td (map (\<lambda>(dst, src, dflt). (dst, dict_get r src dflt)) goalsbyperiod_fields))"
  by (auto simp: merge_goalsbyperiod_def merge_first_row_dict dict_get_def)

lemma merge_faceoff_first_row:
  "map_of d ''data'' = Some (PList (PDict r # rest)) \<Longrightarrow>
   merge_faceoff (PDict d) td =
     Inr (dict_update td (map (\<lambda>(dst, src, dflt). (dst, dict_get r src dflt)) faceoff_fields))"
  by (auto simp: merge_faceoff_def merge_first_row_dict dict_get_def)

lemma merge_no_payload:
  "\<not> truthy p \<Longrightarrow> merge_powerplay p td = Inr td"
  "\<not> truthy p \<Longrightarrow> merge_goalsbyperiod p td = Inr td"
  "\<not> truthy p \<Longrightarrow> merge_faceoff p td = Inr td"
  by (simp_all add: merge_powerplay_def merge_goalsbyperiod_def merge_faceoff_def)

lemma merge_falsy_data:
  assumes "map_of d ''data'' = Some rows" "\<not> truthy rows"
  shows "merge_powerplay (PDict d) td = Inr td"
    and "merge_goalsbyperiod (PDict d) td = Inr td"
    and "merge_faceoff (PDict d) td = Inr td"
  using assms
  by (simp_all add: merge_powerplay_def merge_goalsbyperiod_def merge_faceoff_def dict_get_def)

lemma merge_absent_data:
  assumes "map_of d ''data'' = None"
  shows "merge_powerplay (PDict d) td = (if d = [] then Inr td else Inl KeyError)"
    and "merge_goalsbyperiod (PDict d) td = Inr td"
    and "merge_faceoff (PDict d) td = Inr td"
  using assms
  by (simp_all add: merge_powerplay_def merge_goalsbyperiod_def merge_faceoff_def dict_get_def)

lemma team_data_entry_full:
  "\<exists>row. team_data rt entry_full = Inr (PStr ''TOR'', row)"
  unfolding entry_full_def
  using team_data_Inr [of "identity_items @
     [(''wins'', PInt 52), (''regulationPlusOtWins'', PInt 40), (''regulationWins'', PInt 30)]"
     "[(''default'', PStr ''TOR'')]" "PStr ''TOR''"
     "[(''default'', PStr ''Toronto Maple Leafs'')]" "PStr ''Toronto Maple Leafs''"
     "PStr ''Eastern''" "PStr ''Atlantic''" "PStr ''TOR.svg''" rt "PInt 10"]
  by (simp add: identity_items_def reg_ot_wins_ints)

lemma fetch_json_seq_world:
  "calls s < length rs \<Longrightarrow> rs ! calls s = Response 200 (Some v) \<Longrightarrow>
   fetch_json (seq_world rs) url s = (Inr v, s\<lparr>calls := Suc (calls s)\<rparr>)"
  by (simp add: fetch_json_def seq_world_def fetch_json_try_def)

text \<open>
  C3. The three guards on a payload without rows. A payload that is a non-empty
  dictionary with no \<^verbatim>\<open>"data"\<close> key has no rows; \<^verbatim>\<open>gbp.get("data")\<close> and
  \<^verbatim>\<open>foz.get("data")\<close> leave the row as it is, but \<^verbatim>\<open>pp_data["data"]\<close> raises
  \<^verbatim>\<open>KeyError\<close>, and \<^verbatim>\<open>fetch_teams\<close> raises with it at the second request.
\<close>

theorem powerplay_without_data_key_raises:
  "merge_powerplay powerplay_no_data td = Inl KeyError \<and>
   merge_goalsbyperiod powerplay_no_data td = Inr td \<and>
   merge_faceoff powerplay_no_data td = Inr td \<and>
   fetch_teams rt
     (seq_world [standings_of [entry_full], Response 200 (Some powerplay_no_data)]) state0 =
     (Inl KeyError, state0\<lparr>calls := 2\<rparr>)"
proof -
  have m: "merge_powerplay powerplay_no_data td = Inl KeyError" for td
    by (simp add: powerplay_no_data_def merge_absent_data)
  have g: "merge_goalsbyperiod powerplay_no_data td = Inr td"
    and f: "merge_faceoff powerplay_no_data td = Inr td"
    by (simp_all add: powerplay_no_data_def merge_absent_data)
  obtain row where row: "team_data rt entry_full = Inr (PStr ''TOR'', row)"
    using team_data_entry_full by blast
  have "fetch_teams rt
     (seq_world [standings_of [entry_full], Response 200 (Some powerplay_no_data)]) state0 =
     (Inl KeyError, state0\<lparr>calls := 2\<rparr>)"
    by (simp add: fetch_teams_def fetch_json_seq_world standings_of_def state0_def
        dict_get_def team_entry_def row m)
  with m g f show ?thesis by simp
qed

section \<open>The player statistics\<close>

lemma map_of_dict_update_new:
  "map_of other k = None \<Longrightarrow> map_of (dict_update d other) k = map_of d k"
proof -
  assume "map_of other k = None"
  then have "k \<notin> fst ` set (rev other)"
    by (simp add: map_of_eq_None_iff)
  then have "map_of (rev other) k = None"
    by (simp add: map_of_eq_None_iff)
  then show ?thesis
    by (simp add: map_of_dict_update map_add_def)
qed

lemma season_row_dict:
  assumes "season_type (dict_get sd ''gameTypeId'' PNone) = Inr st"
  shows "season_row player_id full_name position (PDict sd) =
     Inr (dict_update sd
       [(''player_id'', player_id),
        (''player'', PStr full_name),
        (''team'', dict_get sd ''teamName'' PNone),
        (''type'', PStr st),
        (''season_scope'', PStr ''season''),
        (''positionCode'', position)])"
  using assms by (simp add: season_row_def)

lemma season_type_scalar:
  assumes "\<forall>xs. g \<noteq> PList xs" "\<forall>d. g \<noteq> PDict d"
  shows "season_type g =
     Inr (if g = PInt 2 \<or> g = PFloat 0x4000000000000000 then ''regular''
          else if g = PInt 3 \<or> g = PFloat 0x4008000000000000 then ''playoffs''
          else ''other'')"
  using assms by (cases g) (auto simp: season_type_def)

text \<open>
  C8, as amended. The competition type of a season row comes from the entry's
  \<^verbatim>\<open>gameTypeId\<close>: 2 gives \<^verbatim>\<open>"regular"\<close>, 3 gives \<^verbatim>\<open>"playoffs"\<close> (the floats
  2.0 and 3.0 are these keys too), and any other value that is not a list or a dictionary,
  \<^verbatim>\<open>None\<close> for an absent code included, gives \<^verbatim>\<open>"other"\<close>. A code that is a list
  or a dictionary is unhashable: the lookup raises \<^verbatim>\<open>TypeError\<close> and the entry gives
  no row.
\<close>

theorem season_row_type_by_code:
  "((\<forall>xs. dict_get sd ''gameTypeId'' PNone \<noteq> PList xs) \<and>
    (\<forall>d. dict_get sd ''gameTypeId'' PNone \<noteq> PDict d) \<longrightarrow>
    (\<exists>row. season_row player_id full_name position (PDict sd) = Inr row \<and>
       map_of row ''season_scope'' = Some (PStr ''season'') \<and>
       map_of row ''type'' = Some (PStr
         (case map_of sd ''gameTypeId'' of
            None \<Rightarrow> ''other''
          | Some g \<Rightarrow>
              if g = PInt 2 \<or> g = PFloat 0x4000000000000000 then ''regular''
              else if g = PInt 3 \<or> g = PFloat 0x4008000000000000 then ''playoffs''
              else ''other'')))) \<and>
   ((\<exists>xs. map_of sd ''gameTypeId'' = Some (PList xs)) \<or>
    (\<exists>d. map_of sd ''gameTypeId'' = Some (PDict d)) \<longrightarrow>
    season_row player_id full_name position (PDict sd) = Inl TypeError)"
proof (intro conjI impI)
  assume a: "(\<forall>xs. dict_get sd ''gameTypeId'' PNone \<noteq> PList xs) \<and>
    (\<forall>d. dict_get sd ''gameTypeId'' PNone \<noteq> PDict d)"
  let ?g = "dict_get sd ''gameTypeId'' PNone"
  let ?st = "if ?g = PInt 2 \<or> ?g = PFloat 0x4000000000000000 then ''regular''
          else if ?g = PInt 3 \<or> ?g = PFloat 0x4008000000000000 then ''playoffs''
          else ''other''"
  have st: "season_type ?g = Inr ?st"
    using a by (intro season_type_scalar) auto
  have eq: "?st = (case map_of sd ''gameTypeId'' of
            None \<Rightarrow> ''other''
          | Some g \<Rightarrow>
              if g = PInt 2 \<or> g = PFloat 0x4000000000000000 then ''regular''
              else if g = PInt 3 \<or> g = PFloat 0x4008000000000000 then ''playoffs''
              else ''other'')"
    by (simp add: dict_get_def split: option.splits)
  show "\<exists>row. season_row player_id full_name position (PDict sd) = Inr row \<and>
       map_of row ''season_scope'' = Some (PStr ''season'') \<and>
       map_of row ''type'' = Some (PStr
         (case map_of sd ''gameTypeId'' of
            None \<Rightarrow> ''other''
          | Some g \<Rightarrow>
              if g = PInt 2 \<or> g = PFloat 0x4000000000000000 then ''regular''
              else if g = PInt 3 \<or> g = PFloat 0x4008000000000000 then ''playoffs''
              else ''other''))"
    unfolding season_row_dict [OF st] eq [symmetric]
    by (simp add: map_of_dict_update)
next
  assume "(\<exists>xs. map_of sd ''gameTypeId'' = Some (PList xs)) \<or>
    (\<exists>d. map_of sd ''gameTypeId'' = Some (PDict d))"
  then show "season_row player_id full_name position (PDict sd) = Inl TypeError"
    by (auto simp: season_row_def dict_get_def season_type_def)
qed

theorem season_row_list_code_raises:
  "season_row (PInt 8478402) ''Connor McDavid'' (PStr ''C'') season_with_list_code
     = Inl TypeError"
  by (simp add: season_with_list_code_def season_row_def dict_get_def season_type_def)

theorem season_row_type_by_code_witness:
  "(\<exists>row. season_row (PInt 8478402) ''Connor McDavid'' (PStr ''C'')
        (PDict [(''season'', PInt 20232024), (''gameTypeId'', PInt 3)]) = Inr row \<and>
      map_of row ''season_scope'' = Some (PStr ''season'') \<and>
      map_of row ''type'' = Some (PStr ''playoffs'')) \<and>
   (\<exists>row. season_row (PInt 8478402) ''Connor McDavid'' (PStr ''C'')
        (PDict [(''season'', PInt 20232024)]) = Inr row \<and>
      map_of row ''type'' = Some (PStr ''other'')) \<and>
   season_row (PInt 8478402) ''Connor McDavid'' (PStr ''C'') season_with_list_code
     = Inl TypeError"
proof -
  have a: "\<exists>row. season_row (PInt 8478402) ''Connor McDavid'' (PStr ''C'')
        (PDict [(''season'', PInt 20232024), (''gameTypeId'', PInt 3)]) = Inr row \<and>
      map_of row ''season_scope'' = Some (PStr ''season'') \<and>
      map_of row ''type'' = Some (PStr ''playoffs'')"
    using season_row_type_by_code
      [of "[(''season'', PInt 20232024), (''gameTypeId'', PInt 3)]"
          "PInt 8478402" "''Connor McDavid''" "PStr ''C''"]
    by (simp add: dict_get_def)
  have b: "\<exists>row. season_row (PInt 8478402) ''Connor McDavid'' (PStr ''C'')
        (PDict [(''season'', PInt 20232024)]) = Inr row \<and>
      map_of row ''type'' = Some (PStr ''other'')"
    using season_row_type_by_code
      [of "[(''season'', PInt 20232024)]"
          "PInt 8478402" "''Connor McDavid''" "PStr ''C''"]
    by (auto simp: dict_get_def)
  have c: "season_row (PInt 8478402) ''Connor McDavid'' (PStr ''C'') season_with_list_code
     = Inl TypeError"
    using season_row_type_by_code
      [of "[(''season'', PInt 20232024), (''gameTypeId'', PList [])]"
          "PInt 8478402" "''Connor McDavid''" "PStr ''C''"]
    by (simp add: season_with_list_code_def)
  from a b c show ?thesis by blast
qed

lemma seasons_loop_rows:
  assumes "\<forall>x\<in>set seasons. \<exists>sd. x = PDict sd \<and>
             (\<forall>xs. dict_get sd ''gameTypeId'' PNone \<noteq> PList xs) \<and>
             (\<forall>d. dict_get sd ''gameTypeId'' PNone \<noteq> PDict d)"
  shows "\<exists>srows. seasons_loop player_id full_name position seasons stats = Inr (stats @ srows) \<and>
           list_all2 (\<lambda>x r. season_row player_id full_name position x = Inr r \<and>
                (\<exists>sd st. x = PDict sd \<and>
                   season_type (dict_get sd ''gameTypeId'' PNone) = Inr st \<and>
                   row_tags r = (PStr ''season'', PStr st)))
             seasons srows"
  using assms
proof (induction seasons arbitrary: stats)
  case Nil
  then show ?case by simp
next
  case (Cons x seasons)
  then obtain sd where x: "x = PDict sd"
    and h: "(\<forall>xs. dict_get sd ''gameTypeId'' PNone \<noteq> PList xs) \<and>
             (\<forall>d. dict_get sd ''gameTypeId'' PNone \<noteq> PDict d)"
    by auto
  from h obtain st where st: "season_type (dict_get sd ''gameTypeId'' PNone) = Inr st"
    using season_type_scalar by blast
  let ?r = "dict_update sd
       [(''player_id'', player_id),
        (''player'', PStr full_name),
        (''team'', dict_get sd ''teamName'' PNone),
        (''type'', PStr st),
        (''season_scope'', PStr ''season''),
        (''positionCode'', position)]"
  have r: "season_row player_id full_name position x = Inr ?r"
    unfolding x by (rule season_row_dict [OF st])
  have sc: "row_tags ?r = (PStr ''season'', PStr st)"
    by (simp add: row_tags_def dict_get_def map_of_dict_update)
  from Cons.IH [of "stats @ [?r]"] Cons.prems obtain srows where
    "seasons_loop player_id full_name position seasons (stats @ [?r]) = Inr ((stats @ [?r]) @ srows)"
    "list_all2 (\<lambda>x r. season_row player_id full_name position x = Inr r \<and>
                (\<exists>sd st. x = PDict sd \<and>
                   season_type (dict_get sd ''gameTypeId'' PNone) = Inr st \<and>
                   row_tags r = (PStr ''season'', PStr st)))
             seasons srows"
    by auto
  with r sc st x show ?case
    by (intro exI [of _ "?r # srows"]) simp
qed

lemma career_row_cases:
  assumes "dict_get d ''careerTotals'' (PDict []) = PDict c"
    and "\<not> truthy (dict_get c key PNone) \<or> (\<exists>cd. dict_get c key PNone = PDict cd)"
  shows "\<exists>crows. career_row player_id full_name team_name position (PDict d) key label stats
            = Inr (stats @ crows) \<and>
          map row_tags crows =
            (if truthy (dict_get c key PNone) then [(PStr ''career'', PStr label)] else []) \<and>
          (\<forall>r\<in>set crows. dict_get r ''team'' PNone = team_name)"
proof (cases "truthy (dict_get c key PNone)")
  case False
  then show ?thesis
    using assms(1) by (simp add: career_row_def)
next
  case True
  with assms(2) obtain cd where cd: "dict_get c key PNone = PDict cd"
    by blast
  show ?thesis
    using assms(1) True cd
    by (simp add: career_row_def row_tags_def dict_get_def [of "dict_update _ _"]
        map_of_dict_update)
qed

text \<open>
  C4. When the landing payload is a non-empty dictionary whose season totals are a list of
  dictionaries (with hashable game-type codes) and whose career totals are a dictionary
  (each of its two entries a dictionary, or falsy, or absent), \<^verbatim>\<open>fetch_player_stats\<close>
  returns the season rows first, one for each entry and in the order of the entries, each
  with scope \<^verbatim>\<open>"season"\<close> and the type of its game-type code; then the career
  rows: one tagged \<^verbatim>\<open>"regular"\<close> when \<^verbatim>\<open>regularSeason\<close> is truthy, then one tagged \<^verbatim>\<open>"playoffs"\<close> when
  \<^verbatim>\<open>playoffs\<close> is truthy, with the player's team. Two season entries of game types 2
  and 3 and both career totals give exactly four rows: season/regular, season/playoffs,
  career/regular, career/playoffs.
\<close>

theorem fetch_player_stats_rows:
  assumes "fetch_json W (BASE_URL @ ''/player/'' @ fmt rt player_id @ ''/landing'') s
             = (Inr (PDict d), s')"
    and "d \<noteq> []"
    and "dict_get d ''seasonTotals'' (PList []) = PList seasons"
    and "\<forall>x\<in>set seasons. \<exists>sd. x = PDict sd \<and>
             (\<forall>xs. dict_get sd ''gameTypeId'' PNone \<noteq> PList xs) \<and>
             (\<forall>d. dict_get sd ''gameTypeId'' PNone \<noteq> PDict d)"
    and "dict_get d ''careerTotals'' (PDict []) = PDict c"
    and "\<not> truthy (dict_get c ''regularSeason'' PNone) \<or>
         (\<exists>cd. dict_get c ''regularSeason'' PNone = PDict cd)"
    and "\<not> truthy (dict_get c ''playoffs'' PNone) \<or>
         (\<exists>cd. dict_get c ''playoffs'' PNone = PDict cd)"
  shows "\<exists>srows crows.
           fetch_player_stats rt W player_id full_name team_name position s
             = (Inr (srows @ crows), s') \<and>
           list_all2 (\<lambda>x r. season_row player_id full_name position x = Inr r \<and>
                (\<exists>sd st. x = PDict sd \<and>
                   season_type (dict_get sd ''gameTypeId'' PNone) = Inr st \<and>
                   row_tags r = (PStr ''season'', PStr st)))
             seasons srows \<and>
           map row_tags crows =
             (if truthy (dict_get c ''regularSeason'' PNone)
              then [(PStr ''career'', PStr ''regular'')] else []) @
             (if truthy (dict_get c ''playoffs'' PNone)
              then [(PStr ''career'', PStr ''playoffs'')] else [])"
proof -
  from seasons_loop_rows [OF assms(4), of player_id full_name position "[]"]
  obtain srows where sl: "seasons_loop player_id full_name position seasons [] = Inr srows"
    and sr: "list_all2 (\<lambda>x r. season_row player_id full_name position x = Inr r \<and>
                (\<exists>sd st. x = PDict sd \<and>
                   season_type (dict_get sd ''gameTypeId'' PNone) = Inr st \<and>
                   row_tags r = (PStr ''season'', PStr st)))
             seasons srows"
    by auto
  from career_row_cases [OF assms(5) assms(6), of player_id full_name team_name position
      "''regular''" srows]
  obtain c1 where c1: "career_row player_id full_name team_name position (PDict d)
        ''regularSeason'' ''regular'' srows = Inr (srows @ c1)"
    and t1: "map row_tags c1 = (if truthy (dict_get c ''regularSeason'' PNone)
              then [(PStr ''career'', PStr ''regular'')] else [])"
    by auto
  from career_row_cases [OF assms(5) assms(7), of player_id full_name team_name position
      "''playoffs''" "srows @ c1"]
  obtain c2 where c2: "career_row player_id full_name team_name position (PDict d)
        ''playoffs'' ''playoffs'' (srows @ c1) = Inr ((srows @ c1) @ c2)"
    and t2: "map row_tags c2 = (if truthy (dict_get c ''playoffs'' PNone)
              then [(PStr ''career'', PStr ''playoffs'')] else [])"
    by auto
  have "fetch_player_stats rt W player_id full_name team_name position s
             = (Inr (srows @ (c1 @ c2)), s')"
    using assms(1,2,3) sl c1 c2 by (simp add: fetch_player_stats_def)
  moreover have "map row_tags (c1 @ c2) =
             (if truthy (dict_get c ''regularSeason'' PNone)
              then [(PStr ''career'', PStr ''regular'')] else []) @
             (if truthy (dict_get c ''playoffs'' PNone)
              then [(PStr ''career'', PStr ''playoffs'')] else [])"
    using t1 t2 by simp
  ultimately show ?thesis
    using sr by blast
qed

theorem fetch_player_stats_rows_witness:
  "\<exists>rows. fetch_player_stats stub_runtime (seq_world [Response 200 (Some landing_example)])
       (PInt 8478402) ''Connor McDavid'' (PStr ''Edmonton Oilers'') (PStr ''C'') state0
       = (Inr rows, state0\<lparr>calls := 1\<rparr>) \<and>
     map row_tags rows =
       [(PStr ''season'', PStr ''regular''), (PStr ''season'', PStr ''playoffs''),
        (PStr ''career'', PStr ''regular''), (PStr ''career'', PStr ''playoffs'')]"
proof -
  let ?d = "[(''playerId'', PInt 8478402),
      (''seasonTotals'', PList
         [PDict [(''season'', PInt 20232024), (''gameTypeId'', PInt 2), (''goals'', PInt 32)],
          PDict [(''season'', PInt 20232024), (''gameTypeId'', PInt 3), (''goals'', PInt 8)]]),
      (''careerTotals'', PDict
         [(''regularSeason'', PDict [(''goals'', PInt 335)]),
          (''playoffs'', PDict [(''goals'', PInt 37)])])]"
  let ?seasons = "[PDict [(''season'', PInt 20232024), (''gameTypeId'', PInt 2), (''goals'', PInt 32)],
          PDict [(''season'', PInt 20232024), (''gameTypeId'', PInt 3), (''goals'', PInt 8)]]"
  let ?c = "[(''regularSeason'', PDict [(''goals'', PInt 335)]),
          (''playoffs'', PDict [(''goals'', PInt 37)])]"
  let ?W = "seq_world [Response 200 (Some landing_example)]"
  have h1: "fetch_json ?W (BASE_URL @ ''/player/'' @ fmt stub_runtime (PInt 8478402) @ ''/landing'')
      state0 = (Inr (PDict ?d), state0\<lparr>calls := 1\<rparr>)"
    by (simp add: fetch_json_seq_world state0_def landing_example_def)
  have h2: "?d \<noteq> []" by simp
  have h3: "dict_get ?d ''seasonTotals'' (PList []) = PList ?seasons"
    by (simp add: dict_get_def)
  have h4: "\<forall>x\<in>set ?seasons. \<exists>sd. x = PDict sd \<and>
             (\<forall>xs. dict_get sd ''gameTypeId'' PNone \<noteq> PList xs) \<and>
             (\<forall>d. dict_get sd ''gameTypeId'' PNone \<noteq> PDict d)"
    by (simp add: dict_get_def)
  have h5: "dict_get ?d ''careerTotals'' (PDict []) = PDict ?c"
    by (simp add: dict_get_def)
  have h6: "\<not> truthy (dict_get ?c ''regularSeason'' PNone) \<or>
         (\<exists>cd. dict_get ?c ''regularSeason'' PNone = PDict cd)"
    by (simp add: dict_get_def)
  have h7: "\<not> truthy (dict_get ?c ''playoffs'' PNone) \<or>
         (\<exists>cd. dict_get ?c ''playoffs'' PNone = PDict cd)"
    by (simp add: dict_get_def)
  from fetch_player_stats_rows [OF h1 h2 h3 h4 h5 h6 h7,
      of "''Connor McDavid''" "PStr ''Edmonton Oilers''" "PStr ''C''"]
  obtain srows crows where
    res: "fetch_player_stats stub_runtime ?W (PInt 8478402) ''Connor McDavid''
            (PStr ''Edmonton Oilers'') (PStr ''C'') state0
          = (Inr (srows @ crows), state0\<lparr>calls := 1\<rparr>)"
    and sr: "list_all2 (\<lambda>x r. season_row (PInt 8478402) ''Connor McDavid'' (PStr ''C'') x = Inr r \<and>
                (\<exists>sd st. x = PDict sd \<and>
                   season_type (dict_get sd ''gameTypeId'' PNone) = Inr st \<and>
                   row_tags r = (PStr ''season'', PStr st)))
             ?seasons srows"
    and cr: "map row_tags crows =
             (if truthy (dict_get ?c ''regularSeason'' PNone)
              then [(PStr ''career'', PStr ''regular'')] else []) @
             (if truthy (dict_get ?c ''playoffs'' PNone)
              then [(PStr ''career'', PStr ''playoffs'')] else [])"
    by blast
  from sr have "map row_tags srows =
      [(PStr ''season'', PStr ''regular''), (PStr ''season'', PStr ''playoffs'')]"
    by (auto simp: list_all2_Cons1 dict_get_def season_type_def)
  moreover from cr have "map row_tags crows =
      [(PStr ''career'', PStr ''regular''), (PStr ''career'', PStr ''playoffs'')]"
    by (simp add: dict_get_def)
  ultimately have tags: "map row_tags (srows @ crows) =
       [(PStr ''season'', PStr ''regular''), (PStr ''season'', PStr ''playoffs''),
        (PStr ''career'', PStr ''regular''), (PStr ''career'', PStr ''playoffs'')]"
    by simp
  show ?thesis
    by (rule exI [of _ "srows @ crows"], rule conjI, rule res, rule tags)
qed

section \<open>A falsy payload\<close>

text \<open>
  C10. A fetch whose result is falsy (the \<^verbatim>\<open>None\<close> of a failure, but also an empty
  dictionary or list, \<open>0\<close>, \<^verbatim>\<open>False\<close> or an empty string that was parsed) stops each
  aggregator at its guard: \<^verbatim>\<open>fetch_teams\<close> returns the empty table,
  \<^verbatim>\<open>fetch_team_roster\<close> and \<^verbatim>\<open>fetch_player_stats\<close> return no rows, and none of
  them raises.
\<close>

theorem falsy_payload_like_failure:
  "(fetch_json W (BASE_URL @ ''/standings/now'') s = (Inr v, s') \<and> \<not> truthy v \<longrightarrow>
      fetch_teams rt W s = (Inr [], s')) \<and>
   (fetch_json W (BASE_URL @ ''/roster/'' @ lower rt a @ ''/'' @ SEASON_ID) s = (Inr v, s') \<and>
      \<not> truthy v \<longrightarrow>
      fetch_team_roster rt W (PStr a) s = (Inr (PList []), s')) \<and>
   (fetch_json W (BASE_URL @ ''/player/'' @ fmt rt player_id @ ''/landing'') s = (Inr v, s') \<and>
      \<not> truthy v \<longrightarrow>
      fetch_player_stats rt W player_id full_name team_name position s = (Inr [], s'))"
  by (simp add: fetch_teams_def fetch_team_roster_def fetch_player_stats_def)

theorem falsy_payload_like_failure_witness:
  "fetch_teams stub_runtime (seq_world [Response 200 (Some (PDict []))]) state0
     = (Inr [], state0\<lparr>calls := 1\<rparr>) \<and>
   fetch_team_roster stub_runtime (seq_world [Response 200 (Some (PList []))]) (PStr ''TOR'') state0
     = (Inr (PList []), state0\<lparr>calls := 1\<rparr>) \<and>
   fetch_player_stats stub_runtime (seq_world [Response 200 (Some (PDict []))])
       (PInt 8478402) ''Connor McDavid'' (PStr ''Edmonton Oilers'') (PStr ''C'') state0
     = (Inr [], state0\<lparr>calls := 1\<rparr>)"
proof -
  have f: "fetch_json (seq_world [Response 200 (Some v)]) url state0
     = (Inr v, state0\<lparr>calls := 1\<rparr>)" for v url
    by (simp add: fetch_json_seq_world state0_def)
  have a: "fetch_teams stub_runtime (seq_world [Response 200 (Some (PDict []))]) state0
     = (Inr [], state0\<lparr>calls := 1\<rparr>)"
    using falsy_payload_like_failure
      [of "seq_world [Response 200 (Some (PDict []))]" state0 "PDict []"
          "state0\<lparr>calls := 1\<rparr>" stub_runtime] f
    by simp
  have b: "fetch_team_roster stub_runtime (seq_world [Response 200 (Some (PList []))])
      (PStr ''TOR'') state0 = (Inr (PList []), state0\<lparr>calls := 1\<rparr>)"
    using falsy_payload_like_failure
      [of "seq_world [Response 200 (Some (PList []))]" state0 "PList []"
          "state0\<lparr>calls := 1\<rparr>" stub_runtime "''TOR''"] f
    by simp
  have c: "fetch_player_stats stub_runtime (seq_world [Response 200 (Some (PDict []))])
       (PInt 8478402) ''Connor McDavid'' (PStr ''Edmonton Oilers'') (PStr ''C'') state0
     = (Inr [], state0\<lparr>calls := 1\<rparr>)"
    using falsy_payload_like_failure
      [of "seq_world [Response 200 (Some (PDict []))]" state0 "PDict []"
          "state0\<lparr>calls := 1\<rparr>" stub_runtime _ "PInt 8478402"] f
    by simp
  from a b c show ?thesis by simp
qed

section \<open>The roster\<close>

lemma fetch_json_fails:
  "fetch_json_try (W (calls s) url) = Inl e \<Longrightarrow>
   fetch_json W url s = (Inr PNone, print (ErrorFetching url e) (s\<lparr>calls := Suc (calls s)\<rparr>))"
  by (simp add: fetch_json_def)

text \<open>
  C6. For a team whose abbreviation is a string: when the roster payload is a non-empty
  dictionary and its three groups are lists (an absent group counts as the empty list),
  \<^verbatim>\<open>fetch_team_roster\<close> returns forwards, then defensemen, then goalies as one list.
  When the roster fetch fails, it returns the empty list; the step of
  \<^verbatim>\<open>build_rosters_and_stats\<close> for that team then leaves both tables as they were, and
  the loop goes on with the next team.
\<close>

theorem roster_concatenation_and_failure:
  "(fetch_json W (BASE_URL @ ''/roster/'' @ lower rt a @ ''/'' @ SEASON_ID) s
      = (Inr (PDict d), s') \<and> d \<noteq> [] \<and>
    dict_get d ''forwards'' (PList []) = PList fwd \<and>
    dict_get d ''defensemen'' (PList []) = PList dfn \<and>
    dict_get d ''goalies'' (PList []) = PList gol \<longrightarrow>
    fetch_team_roster rt W (PStr a) s = (Inr (PList (fwd @ dfn @ gol)), s')) \<and>
   (fetch_json_try (W (calls s) (BASE_URL @ ''/roster/'' @ lower rt a @ ''/'' @ SEASON_ID)) = Inl e \<and>
    map_of team ''team_abbr'' = Some (PStr a) \<and> map_of team ''team_name'' = Some name \<longrightarrow>
    (\<exists>s'. fetch_team_roster rt W (PStr a) (print (InfoRoster (fmt rt name)) s)
            = (Inr (PList []), s') \<and>
          team_step rt W team acc s = (Inr acc, s') \<and>
          build_loop rt W (team # rest) acc s = build_loop rt W rest acc s'))"
proof (intro conjI impI)
  assume "fetch_json W (BASE_URL @ ''/roster/'' @ lower rt a @ ''/'' @ SEASON_ID) s
      = (Inr (PDict d), s') \<and> d \<noteq> [] \<and>
    dict_get d ''forwards'' (PList []) = PList fwd \<and>
    dict_get d ''defensemen'' (PList []) = PList dfn \<and>
    dict_get d ''goalies'' (PList []) = PList gol"
  then show "fetch_team_roster rt W (PStr a) s = (Inr (PList (fwd @ dfn @ gol)), s')"
    by (simp add: fetch_team_roster_def py_add_def)
next
  assume h: "fetch_json_try (W (calls s) (BASE_URL @ ''/roster/'' @ lower rt a @ ''/'' @ SEASON_ID))
      = Inl e \<and>
    map_of team ''team_abbr'' = Some (PStr a) \<and> map_of team ''team_name'' = Some name"
  let ?url = "BASE_URL @ ''/roster/'' @ lower rt a @ ''/'' @ SEASON_ID"
  let ?s1 = "print (InfoRoster (fmt rt name)) s"
  let ?s' = "print (ErrorFetching ?url e) (?s1\<lparr>calls := Suc (calls ?s1)\<rparr>)"
  have c: "calls ?s1 = calls s"
    by (simp add: print_def)
  have f: "fetch_json W ?url ?s1 = (Inr PNone, ?s')"
    using h by (intro fetch_json_fails) (simp add: c)
  have r: "fetch_team_roster rt W (PStr a) ?s1 = (Inr (PList []), ?s')"
    unfolding fetch_team_roster_def pyval.case f by simp
  have t: "team_step rt W team acc s = (Inr acc, ?s')"
    using h by (simp add: team_step_def r)
  have b: "build_loop rt W (team # rest) acc s = build_loop rt W rest acc ?s'"
    by (simp add: t)
  from r t b show "\<exists>s'. fetch_team_roster rt W (PStr a) (print (InfoRoster (fmt rt name)) s)
            = (Inr (PList []), s') \<and>
          team_step rt W team acc s = (Inr acc, s') \<and>
          build_loop rt W (team # rest) acc s = build_loop rt W rest acc s'"
    by (intro exI [of _ ?s'] conjI)
qed

theorem roster_concatenation_and_failure_witness:
  "fetch_team_roster stub_runtime (seq_world [Response 200 (Some roster_example)])
     (PStr ''TOR'') state0 =
     (Inr (PList [PDict [(''id'', PInt 1)], PDict [(''id'', PInt 2)],
                  PDict [(''id'', PInt 3)], PDict [(''id'', PInt 4)]]),
      state0\<lparr>calls := 1\<rparr>) \<and>
   (\<exists>s'. build_rosters_and_stats stub_runtime (seq_world [])
           [[(''team_abbr'', PStr ''TOR''), (''team_name'', PStr ''Toronto Maple Leafs'')]] state0
         = (Inr ([], []), s'))"
proof -
  let ?d = "[(''forwards'', PList [PDict [(''id'', PInt 1)], PDict [(''id'', PInt 2)]]),
      (''defensemen'', PList [PDict [(''id'', PInt 3)]]),
      (''goalies'', PList [PDict [(''id'', PInt 4)]])]"
  let ?url = "BASE_URL @ ''/roster/'' @ lower stub_runtime ''TOR'' @ ''/'' @ SEASON_ID"
  let ?team = "[(''team_abbr'', PStr ''TOR''), (''team_name'', PStr ''Toronto Maple Leafs'')]"
  have h: "fetch_json (seq_world [Response 200 (Some roster_example)]) ?url state0
      = (Inr (PDict ?d), state0\<lparr>calls := 1\<rparr>) \<and> ?d \<noteq> [] \<and>
    dict_get ?d ''forwards'' (PList []) = PList [PDict [(''id'', PInt 1)], PDict [(''id'', PInt 2)]] \<and>
    dict_get ?d ''defensemen'' (PList []) = PList [PDict [(''id'', PInt 3)]] \<and>
    dict_get ?d ''goalies'' (PList []) = PList [PDict [(''id'', PInt 4)]]"
    by (simp add: fetch_json_seq_world state0_def roster_example_def dict_get_def)
  have a: "fetch_team_roster stub_runtime (seq_world [Response 200 (Some roster_example)])
     (PStr ''TOR'') state0 =
     (Inr (PList ([PDict [(''id'', PInt 1)], PDict [(''id'', PInt 2)]] @
                  [PDict [(''id'', PInt 3)]] @ [PDict [(''id'', PInt 4)]])),
      state0\<lparr>calls := 1\<rparr>)"
    using roster_concatenation_and_failure
      [of "seq_world [Response 200 (Some roster_example)]" stub_runtime "''TOR''" state0 ?d
          "state0\<lparr>calls := 1\<rparr>"] h
    by blast
  have g: "fetch_json_try (seq_world [] (calls state0) ?url) = Inl RequestException \<and>
    map_of ?team ''team_abbr'' = Some (PStr ''TOR'') \<and>
    map_of ?team ''team_name'' = Some (PStr ''Toronto Maple Leafs'')"
    by (simp add: seq_world_def fetch_json_try_def)
  from roster_concatenation_and_failure
      [of "seq_world []" stub_runtime "''TOR''" state0 _ _ _ _ _ RequestException ?team
          "PStr ''Toronto Maple Leafs''" "([], [])" "[]"] g
  obtain s' where "build_loop stub_runtime (seq_world []) (?team # []) ([], []) state0
      = build_loop stub_runtime (seq_world []) [] ([], []) s'"
    by blast
  then have b: "\<exists>s'. build_rosters_and_stats stub_runtime (seq_world []) [?team] state0
         = (Inr ([], []), s')"
    by (simp add: build_rosters_and_stats_def)
  from a b show ?thesis by simp
qed

section \<open>The team table\<close>

lemma fetch_json_stats_ok:
  assumes "stats_ok (W (calls s) url)"
  shows "\<exists>v s'. fetch_json W url s = (Inr v, s') \<and> stats_payload_ok v \<and>
           calls s' = Suc (calls s)"
proof (cases "fetch_json_try (W (calls s) url)")
  case (Inl e)
  then show ?thesis
    by (simp add: fetch_json_def print_def stats_payload_ok_def)
next
  case (Inr v)
  with assms show ?thesis
    by (simp add: fetch_json_def stats_ok_def)
qed

lemma stats_payload_ok_cases:
  assumes "stats_payload_ok p"
  obtains "\<not> truthy p"
  | d rows where "p = PDict d" "map_of d ''data'' = Some rows" "\<not> truthy rows"
  | d r rest where "p = PDict d" "map_of d ''data'' = Some (PList (PDict r # rest))"
proof (cases "truthy p")
  case False
  then show ?thesis by (rule that(1))
next
  case True
  with assms obtain d rows where p: "p = PDict d" and rows: "map_of d ''data'' = Some rows"
    and c: "if truthy rows then first_is_dict rows else True"
    by (auto simp: stats_payload_ok_def split: pyval.splits option.splits)
  show ?thesis
  proof (cases "truthy rows")
    case False
    with p rows show ?thesis by (rule that(2))
  next
    case True
    with c have "first_is_dict rows" by simp
    then obtain r rest where "rows = PList (PDict r # rest)"
      by (auto simp: first_is_dict_def split: pyval.splits list.splits)
    with p rows show ?thesis by (auto intro: that(3))
  qed
qed

lemma stats_fields_new:
  "set (map fst powerplay_fields) \<inter> set team_columns = {}"
  "set (map fst goalsbyperiod_fields) \<inter> set team_columns = {}"
  "set (map fst faceoff_fields) \<inter> set team_columns = {}"
  by (simp_all add: powerplay_fields_def goalsbyperiod_fields_def faceoff_fields_def
      team_columns_def record_fields_1_def record_fields_2_def)

lemma dict_update_fields_append:
  assumes "set (map fst flds) \<inter> set (map fst base) = {}"
  shows "dict_update (base @ ext) (map (\<lambda>(dst, src, dflt). (dst, dict_get r src dflt)) flds) =
         base @ dict_update ext (map (\<lambda>(dst, src, dflt). (dst, dict_get r src dflt)) flds)"
proof -
  have "fst ` set (map (\<lambda>(dst, src, dflt). (dst, dict_get r src dflt)) flds) = set (map fst flds)"
    by (force simp: image_iff)
  with assms show ?thesis
    by (intro dict_update_append) auto
qed

lemma merge_keeps_team_data:
  assumes ok: "stats_payload_ok p" and cols: "map fst base = team_columns"
  shows "\<exists>ext'. merge_powerplay p (base @ ext) = Inr (base @ ext')"
    and "\<exists>ext'. merge_goalsbyperiod p (base @ ext) = Inr (base @ ext')"
    and "\<exists>ext'. merge_faceoff p (base @ ext) = Inr (base @ ext')"
proof -
  from ok show "\<exists>ext'. merge_powerplay p (base @ ext) = Inr (base @ ext')"
  proof (cases rule: stats_payload_ok_cases)
    case 1
    then show ?thesis by (simp add: merge_no_payload)
  next
    case (2 d rows)
    then show ?thesis by (simp add: merge_falsy_data)
  next
    case (3 d r rest)
    have "set (map fst powerplay_fields) \<inter> set (map fst base) = {}"
      unfolding cols by (rule stats_fields_new(1))
    from dict_update_fields_append [OF this, of ext r] 3 show ?thesis
      by (simp add: merge_powerplay_first_row)
  qed
  from ok show "\<exists>ext'. merge_goalsbyperiod p (base @ ext) = Inr (base @ ext')"
  proof (cases rule: stats_payload_ok_cases)
    case 1
    then show ?thesis by (simp add: merge_no_payload)
  next
    case (2 d rows)
    then show ?thesis by (simp add: merge_falsy_data)
  next
    case (3 d r rest)
    have "set (map fst goalsbyperiod_fields) \<inter> set (map fst base) = {}"
      unfolding cols by (rule stats_fields_new(2))
    from dict_update_fields_append [OF this, of ext r] 3 show ?thesis
      by (simp add: merge_goalsbyperiod_first_row)
  qed
  from ok show "\<exists>ext'. merge_faceoff p (base @ ext) = Inr (base @ ext')"
  proof (cases rule: stats_payload_ok_cases)
    case 1
    then show ?thesis by (simp add: merge_no_payload)
  next
    case (2 d rows)
    then show ?thesis by (simp add: merge_falsy_data)
  next
    case (3 d r rest)
    have "set (map fst faceoff_fields) \<inter> set (map fst base) = {}"
      unfolding cols by (rule stats_fields_new(3))
    from dict_update_fields_append [OF this, of ext r] 3 show ?thesis
      by (simp add: merge_faceoff_first_row)
  qed
qed

lemma team_entry_ok:
  assumes td: "team_data rt entry = Inr (abbr, td)"
    and ok: "\<forall>n url. calls s \<le> n \<longrightarrow> stats_ok (W n url)"
  shows "\<exists>ext s'. team_entry rt W entry s = (Inr (td @ ext), s') \<and> calls s' = calls s + 3"
proof -
  have cols: "map fst td = team_columns"
    using td by (rule team_data_columns)
  let ?ce = "cayenne_expr rt abbr"
  from ok have "stats_ok (W (calls s) (stats_url ''powerplay'' ?ce))" by simp
  from fetch_json_stats_ok [of W s "stats_url ''powerplay'' ?ce", OF this] obtain pp s1 where
    f1: "fetch_json W (stats_url ''powerplay'' ?ce) s = (Inr pp, s1)"
    and p1: "stats_payload_ok pp" and c1: "calls s1 = Suc (calls s)"
    by blast
  from merge_keeps_team_data(1) [OF p1 cols, of "[]"] obtain e1 where
    m1: "merge_powerplay pp td = Inr (td @ e1)"
    by auto
  from ok c1 have "stats_ok (W (calls s1) (stats_url ''goalsbyperiod'' ?ce))" by simp
  from fetch_json_stats_ok [of W s1 "stats_url ''goalsbyperiod'' ?ce", OF this] obtain gbp s2 where
    f2: "fetch_json W (stats_url ''goalsbyperiod'' ?ce) s1 = (Inr gbp, s2)"
    and p2: "stats_payload_ok gbp" and c2: "calls s2 = Suc (calls s1)"
    by blast
  from merge_keeps_team_data(2) [OF p2 cols, of e1] obtain e2 where
    m2: "merge_goalsbyperiod gbp (td @ e1) = Inr (td @ e2)"
    by auto
  from ok c1 c2 have "stats_ok (W (calls s2) (stats_url ''faceoffpercentages'' ?ce))" by simp
  from fetch_json_stats_ok [of W s2 "stats_url ''faceoffpercentages'' ?ce", OF this] obtain foz s3 where
    f3: "fetch_json W (stats_url ''faceoffpercentages'' ?ce) s2 = (Inr foz, s3)"
    and p3: "stats_payload_ok foz" and c3: "calls s3 = Suc (calls s2)"
    by blast
  from merge_keeps_team_data(3) [OF p3 cols, of e2] obtain e3 where
    m3: "merge_faceoff foz (td @ e2) = Inr (td @ e3)"
    by auto
  have "team_entry rt W entry s = (Inr (td @ e3), s3)"
    unfolding team_entry_def td seq_Inr prod.case f1 m1 f2 m2 f3 m3 ..
  with c1 c2 c3 show ?thesis by simp
qed

lemma teams_loop_ok:
  assumes "\<forall>e\<in>set entries. \<exists>abbr td. team_data rt e = Inr (abbr, td)"
    and "\<forall>n url. calls s \<le> n \<longrightarrow> stats_ok (W n url)"
  shows "\<exists>rows s'. teams_loop rt W entries teams s = (Inr (teams @ rows), s') \<and>
           list_all2 (\<lambda>e r. \<exists>abbr td ext. team_data rt e = Inr (abbr, td) \<and> r = td @ ext)
             entries rows"
  using assms
proof (induction entries arbitrary: teams s)
  case Nil
  then show ?case by simp
next
  case (Cons e entries)
  from Cons.prems(1) obtain abbr td where td: "team_data rt e = Inr (abbr, td)"
    by auto
  from team_entry_ok [OF td Cons.prems(2)] obtain ext s1 where
    te: "team_entry rt W e s = (Inr (td @ ext), s1)" and c: "calls s1 = calls s + 3"
    by blast
  have "\<forall>n url. calls s1 \<le> n \<longrightarrow> stats_ok (W n url)"
    using Cons.prems(2) c by simp
  with Cons.IH [of s1 "teams @ [td @ ext]"] Cons.prems(1) obtain rows s' where
    "teams_loop rt W entries (teams @ [td @ ext]) s1 = (Inr ((teams @ [td @ ext]) @ rows), s')"
    "list_all2 (\<lambda>e r. \<exists>abbr td ext. team_data rt e = Inr (abbr, td) \<and> r = td @ ext)
             entries rows"
    by auto
  with te td show ?case
    by (intro exI [of _ "(td @ ext) # rows"] exI [of _ s']) auto
qed

text \<open>
  C5. When the standings payload is a non-empty dictionary whose \<^verbatim>\<open>"standings"\<close> is a
  list of \<open>N\<close> entries, each entry yields its \<^verbatim>\<open>team_data\<close>, and every later response
  of the statistics service is one the merges accept, \<^verbatim>\<open>fetch_teams\<close> returns a table
  of exactly \<open>N\<close> rows, and the \<open>i\<close>-th row is the \<^verbatim>\<open>team_data\<close> of the \<open>i\<close>-th
  entry followed by the columns merged for it.
\<close>

theorem fetch_teams_one_row_per_entry:
  assumes "fetch_json W (BASE_URL @ ''/standings/now'') s = (Inr (PDict d), s1)"
    and "d \<noteq> []"
    and "dict_get d ''standings'' (PList []) = PList entries"
    and "\<forall>e\<in>set entries. \<exists>abbr td. team_data rt e = Inr (abbr, td)"
    and "\<forall>n url. calls s < n \<longrightarrow> stats_ok (W n url)"
  shows "\<exists>rows s'. fetch_teams rt W s = (Inr rows, s') \<and>
           length rows = length entries \<and>
           list_all2 (\<lambda>e r. \<exists>abbr td ext. team_data rt e = Inr (abbr, td) \<and> r = td @ ext)
             entries rows"
proof -
  have "calls s1 = Suc (calls s)"
    using assms(1) fetch_json_Inr [of W "BASE_URL @ ''/standings/now''" s] by auto
  with assms(5) have "\<forall>n url. calls s1 \<le> n \<longrightarrow> stats_ok (W n url)"
    by simp
  from teams_loop_ok [OF assms(4) this, of "[]"] obtain rows s' where
    l: "teams_loop rt W entries [] s1 = (Inr rows, s')"
    and r: "list_all2 (\<lambda>e r. \<exists>abbr td ext. team_data rt e = Inr (abbr, td) \<and> r = td @ ext)
             entries rows"
    by auto
  have "fetch_teams rt W s = (Inr rows, s')"
    using assms(1,2,3) l by (simp add: fetch_teams_def)
  moreover from r have "length rows = length entries"
    by (simp add: list_all2_lengthD)
  ultimately show ?thesis
    using r by blast
qed

lemma team_data_abbr:
  assumes "team_data rt e = Inr (abbr, td)"
  shows "map_of (td @ ext) ''team_abbr'' = Some abbr"
proof -
  from team_data_shape [OF assms] obtain rest where "td = (''team_abbr'', abbr) # rest"
    by auto
  then show ?thesis by simp
qed

lemma team_data_entry_second:
  "\<exists>row. team_data rt entry_second = Inr (PStr ''MTL'', row)"
  unfolding entry_second_def
  using team_data_Inr [of
     "[(''teamAbbrev'', PDict [(''default'', PStr ''MTL'')]),
      (''teamName'', PDict [(''default'', PStr ''Montreal Canadiens'')]),
      (''conferenceName'', PStr ''Eastern''),
      (''divisionName'', PStr ''Atlantic''),
      (''teamLogo'', PStr ''MTL.svg''),
      (''regulationPlusOtWins'', PInt 35), (''regulationWins'', PInt 28)]"
     "[(''default'', PStr ''MTL'')]" "PStr ''MTL''"
     "[(''default'', PStr ''Montreal Canadiens'')]" "PStr ''Montreal Canadiens''"
     "PStr ''Eastern''" "PStr ''Atlantic''" "PStr ''MTL.svg''" rt "PInt 7"]
  by (simp add: reg_ot_wins_ints)

theorem fetch_teams_one_row_per_entry_witness:
  "\<exists>rows s'.
     fetch_teams stub_runtime
       (first_then (standings_of [entry_full, entry_second]) (Response 200 (Some no_rows)))
       state0 = (Inr rows, s') \<and>
     length rows = 2 \<and>
     map (\<lambda>r. map_of r ''team_abbr'') rows = [Some (PStr ''TOR''), Some (PStr ''MTL'')]"
proof -
  let ?W = "first_then (standings_of [entry_full, entry_second]) (Response 200 (Some no_rows))"
  let ?d = "[(''standings'', PList [entry_full, entry_second])]"
  have h1: "fetch_json ?W (BASE_URL @ ''/standings/now'') state0
      = (Inr (PDict ?d), state0\<lparr>calls := 1\<rparr>)"
    by (simp add: fetch_json_def first_then_def standings_of_def fetch_json_try_def state0_def)
  have h2: "?d \<noteq> []" by simp
  have h3: "dict_get ?d ''standings'' (PList []) = PList [entry_full, entry_second]"
    by (simp add: dict_get_def)
  have h4: "\<forall>e\<in>set [entry_full, entry_second]. \<exists>abbr td. team_data stub_runtime e = Inr (abbr, td)"
    using team_data_entry_full [of stub_runtime] team_data_entry_second [of stub_runtime]
    by auto
  have h5: "\<forall>n url. calls state0 < n \<longrightarrow> stats_ok (?W n url)"
    by (simp add: first_then_def state0_def stats_ok_def fetch_json_try_def
        stats_payload_ok_def no_rows_def)
  from fetch_teams_one_row_per_entry [OF h1 h2 h3 h4 h5]
  obtain rows s' where
    res: "fetch_teams stub_runtime ?W state0 = (Inr rows, s')"
    and len: "length rows = length [entry_full, entry_second]"
    and rel: "list_all2 (\<lambda>e r. \<exists>abbr td ext. team_data stub_runtime e = Inr (abbr, td) \<and> r = td @ ext)
             [entry_full, entry_second] rows"
    by blast
  from rel obtain r1 r2 where rows: "rows = [r1, r2]"
    and r1: "\<exists>abbr td ext. team_data stub_runtime entry_full = Inr (abbr, td) \<and> r1 = td @ ext"
    and r2: "\<exists>abbr td ext. team_data stub_runtime entry_second = Inr (abbr, td) \<and> r2 = td @ ext"
    by (auto simp: list_all2_Cons1)
  from r1 obtain abbr1 td1 ext1 where
    t1: "team_data stub_runtime entry_full = Inr (abbr1, td1)" and e1: "r1 = td1 @ ext1"
    by blast
  from t1 team_data_entry_full [of stub_runtime] have "abbr1 = PStr ''TOR''"
    by auto
  with team_data_abbr [OF t1, of ext1] e1 have a1: "map_of r1 ''team_abbr'' = Some (PStr ''TOR'')"
    by simp
  from r2 obtain abbr2 td2 ext2 where
    t2: "team_data stub_runtime entry_second = Inr (abbr2, td2)" and e2: "r2 = td2 @ ext2"
    by blast
  from t2 team_data_entry_second [of stub_runtime] have "abbr2 = PStr ''MTL''"
    by auto
  with team_data_abbr [OF t2, of ext2] e2 have a2: "map_of r2 ''team_abbr'' = Some (PStr ''MTL'')"
    by simp
  have tags: "map (\<lambda>r. map_of r ''team_abbr'') rows = [Some (PStr ''TOR''), Some (PStr ''MTL'')]"
    using rows a1 a2 by simp
  have l2: "length rows = 2"
    using rows by simp
  show ?thesis
    by (rule exI [of _ rows], rule exI [of _ s'], intro conjI, rule res, rule l2, rule tags)
qed

section \<open>The run\<close>

lemma seq_preserves:
  assumes "P (snd m)" and "\<And>x s. P s \<Longrightarrow> P (snd (f x s))"
  shows "P (snd (seq m f))"
proof (cases m)
  case (Pair r s)
  with assms show ?thesis
    by (cases r) (simp_all add: seq_def)
qed

lemma fetch_json_fs:
  "files (snd (fetch_json W url s)) = files s \<and> dirs (snd (fetch_json W url s)) = dirs s"
  by (simp add: fetch_json_def print_def Let_def split: sum.splits)

lemma team_entry_fs:
  "files (snd (team_entry rt W entry s)) = files s \<and>
   dirs (snd (team_entry rt W entry s)) = dirs s"
proof -
  let ?P = "\<lambda>s'. files s' = files s \<and> dirs s' = dirs s"
  have fj: "?P (snd (fetch_json W url s'))" if "?P s'" for url s'
    using that fetch_json_fs [of W url s'] by simp
  show ?thesis
    unfolding team_entry_def
    by (intro seq_preserves [where P = ?P]) (auto simp: split_def intro!: seq_preserves [where P = ?P] fj)
qed

lemma teams_loop_fs:
  "files (snd (teams_loop rt W entries teams s)) = files s \<and>
   dirs (snd (teams_loop rt W entries teams s)) = dirs s"
proof (induction entries arbitrary: teams s)
  case Nil
  show ?case by simp
next
  case (Cons e entries)
  obtain r s1 where te: "team_entry rt W e s = (r, s1)"
    by (cases "team_entry rt W e s")
  with team_entry_fs [of rt W e s] have s1: "files s1 = files s \<and> dirs s1 = dirs s"
    by simp
  show ?case
  proof (cases r)
    case (Inl err)
    with te s1 show ?thesis by simp
  next
    case (Inr td)
    with te s1 Cons.IH [of "teams @ [td]" s1] show ?thesis by simp
  qed
qed

lemma fetch_teams_fs:
  "files (snd (fetch_teams rt W s)) = files s \<and> dirs (snd (fetch_teams rt W s)) = dirs s"
proof -
  obtain v s1 where f: "fetch_json W (BASE_URL @ ''/standings/now'') s = (Inr v, s1)"
    and s1: "files s1 = files s" "dirs s1 = dirs s"
    using fetch_json_Inr [of W "BASE_URL @ ''/standings/now''" s] by auto
  show ?thesis
  proof (cases "truthy v")
    case False
    with f s1 show ?thesis by (simp add: fetch_teams_def)
  next
    case True
    show ?thesis
    proof (cases "and_then (get_method v ''standings'' (PList [])) py_iter")
      case (Inl err)
      with f s1 True show ?thesis by (simp add: fetch_teams_def)
    next
      case (Inr entries)
      with f s1 True teams_loop_fs [of rt W entries "[]" s1] show ?thesis
        by (simp add: fetch_teams_def)
    qed
  qed
qed

lemma fetch_teams_no_standings:
  assumes "fetch_json_try (W (calls s) (BASE_URL @ ''/standings/now'')) = Inl e \<or>
     (fetch_json_try (W (calls s) (BASE_URL @ ''/standings/now'')) = Inr v \<and>
        (\<not> truthy v \<or>
         (\<exists>d. v = PDict d \<and> py_iter (dict_get d ''standings'' (PList [])) = Inr [])))"
  shows "fst (fetch_teams rt W s) = Inr []"
  using assms
  by (auto simp: fetch_teams_def fetch_json_def print_def)

lemma map_of_export_same:
  "map_of (files (export_to_csv df f s)) f = Some df"
  by (simp add: export_to_csv_def print_def map_of_eq_None_iff [THEN iffD2] map_add_Some_iff image_iff)

lemma map_of_export_other:
  "g \<noteq> f \<Longrightarrow> map_of (files (export_to_csv df f s)) g = map_of (files s) g"
proof -
  assume "g \<noteq> f"
  then have "map_of (filter (\<lambda>(name, rows). name \<noteq> f) fs) g = map_of fs g" for fs :: "(string \<times> pydict list) list"
    by (induction fs) auto
  with \<open>g \<noteq> f\<close> show ?thesis
    by (auto simp: export_to_csv_def print_def map_add_def split: option.splits)
qed

lemma export_to_csv_dirs_out:
  "dirs (export_to_csv df f s) = dirs s"
  "out (export_to_csv df f s) = out s @ [Exported f (length df)]"
  by (simp_all add: export_to_csv_def print_def)

lemma main_no_teams:
  assumes "fst (fetch_teams rt W (print Starting s)) = Inr teams" and "df_empty teams"
  shows "\<exists>s'. main rt W s = (Inr (), s') \<and> files s' = files s \<and> dirs s' = dirs s \<and>
           last (out s') = NoTeams"
proof -
  obtain s1 where ft: "fetch_teams rt W (print Starting s) = (Inr teams, s1)"
    using assms(1) by (cases "fetch_teams rt W (print Starting s)") simp
  with fetch_teams_fs [of rt W "print Starting s"]
  have "files s1 = files s" "dirs s1 = dirs s"
    by (simp_all add: print_def)
  moreover have "main rt W s = (Inr (), print NoTeams s1)"
    using ft assms(2) by (simp add: main_def)
  ultimately show ?thesis
    by (simp add: print_def)
qed

lemma main_exports:
  assumes ft: "fetch_teams rt W (print Starting s) = (Inr teams, s1)"
    and ne: "\<not> df_empty teams"
    and b: "build_rosters_and_stats rt W teams s1 = (Inr (rosters, stats), s2)"
  shows "\<exists>s'. main rt W s = (Inr (), s') \<and>
           map_of (files s') (path_join DATA_FOLDER ''teams.csv'') = Some teams \<and>
           map_of (files s') (path_join DATA_FOLDER ''rosters.csv'') = Some rosters \<and>
           map_of (files s') (path_join DATA_FOLDER ''player_stats.csv'') = Some stats \<and>
           DATA_FOLDER \<in> set (dirs s') \<and> last (out s') = Success"
proof -
  let ?s3 = "if DATA_FOLDER \<in> set (dirs s2) then s2 else makedirs DATA_FOLDER s2"
  let ?t = "path_join DATA_FOLDER ''teams.csv''"
  let ?r = "path_join DATA_FOLDER ''rosters.csv''"
  let ?p = "path_join DATA_FOLDER ''player_stats.csv''"
  let ?s4 = "export_to_csv teams ?t ?s3"
  let ?s5 = "export_to_csv rosters ?r ?s4"
  let ?s6 = "export_to_csv stats ?p ?s5"
  have m: "main rt W s = (Inr (), print Success ?s6)"
    using ft ne b by (simp add: main_def)
  have d: "?t \<noteq> ?r" "?t \<noteq> ?p" "?r \<noteq> ?p"
    by (simp_all add: path_join_def)
  have "map_of (files ?s6) ?t = Some teams"
    using d by (simp add: map_of_export_other map_of_export_same)
  moreover have "map_of (files ?s6) ?r = Some rosters"
    using d by (simp add: map_of_export_other map_of_export_same)
  moreover have "map_of (files ?s6) ?p = Some stats"
    by (simp add: map_of_export_same)
  moreover have "DATA_FOLDER \<in> set (dirs ?s6)"
    by (simp add: export_to_csv_dirs_out makedirs_def)
  ultimately show ?thesis
    unfolding m by (simp add: print_def)
qed

text \<open>
  C7. When the team table comes back empty, and so when the standings fetch fails, its
  payload is falsy or its collection of entries is empty, \<^verbatim>\<open>main\<close> prints the error
  line last and returns with the files and directories as they were: no file is written.
  When the table is not empty, \<^verbatim>\<open>main\<close> goes on to \<^verbatim>\<open>build_rosters_and_stats\<close>:
  if that raises, so does \<^verbatim>\<open>main\<close>; if it returns, the folder exists and the three
  files hold the three tables.
\<close>

theorem main_stops_without_teams:
  "(fst (fetch_teams rt W (print Starting s)) = Inr teams \<and> df_empty teams \<longrightarrow>
      (\<exists>s'. main rt W s = (Inr (), s') \<and> files s' = files s \<and> dirs s' = dirs s \<and>
            last (out s') = NoTeams)) \<and>
   (fetch_json_try (W (calls s) (BASE_URL @ ''/standings/now'')) = Inl e \<or>
    (fetch_json_try (W (calls s) (BASE_URL @ ''/standings/now'')) = Inr v \<and>
       (\<not> truthy v \<or>
        (\<exists>d. v = PDict d \<and> py_iter (dict_get d ''standings'' (PList [])) = Inr []))) \<longrightarrow>
      (\<exists>s'. main rt W s = (Inr (), s') \<and> files s' = files s \<and> dirs s' = dirs s \<and>
            last (out s') = NoTeams)) \<and>
   (fetch_teams rt W (print Starting s) = (Inr teams, s1) \<and> \<not> df_empty teams \<longrightarrow>
      (case build_rosters_and_stats rt W teams s1 of
         (Inl err, s2) \<Rightarrow> main rt W s = (Inl err, s2)
       | (Inr (rosters, stats), s2) \<Rightarrow>
           (\<exists>s'. main rt W s = (Inr (), s') \<and>
              map_of (files s') (path_join DATA_FOLDER ''teams.csv'') = Some teams \<and>
              map_of (files s') (path_join DATA_FOLDER ''rosters.csv'') = Some rosters \<and>
              map_of (files s') (path_join DATA_FOLDER ''player_stats.csv'') = Some stats \<and>
              DATA_FOLDER \<in> set (dirs s') \<and> last (out s') = Success)))"
proof (intro conjI impI)
  assume "fst (fetch_teams rt W (print Starting s)) = Inr teams \<and> df_empty teams"
  then show "\<exists>s'. main rt W s = (Inr (), s') \<and> files s' = files s \<and> dirs s' = dirs s \<and>
            last (out s') = NoTeams"
    using main_no_teams by blast
next
  assume "fetch_json_try (W (calls s) (BASE_URL @ ''/standings/now'')) = Inl e \<or>
    (fetch_json_try (W (calls s) (BASE_URL @ ''/standings/now'')) = Inr v \<and>
       (\<not> truthy v \<or>
        (\<exists>d. v = PDict d \<and> py_iter (dict_get d ''standings'' (PList [])) = Inr [])))"
  then have "fetch_json_try (W (calls (print Starting s)) (BASE_URL @ ''/standings/now'')) = Inl e \<or>
    (fetch_json_try (W (calls (print Starting s)) (BASE_URL @ ''/standings/now'')) = Inr v \<and>
       (\<not> truthy v \<or>
        (\<exists>d. v = PDict d \<and> py_iter (dict_get d ''standings'' (PList [])) = Inr [])))"
    by (simp add: print_def)
  then have "fst (fetch_teams rt W (print Starting s)) = Inr []"
    by (rule fetch_teams_no_standings)
  moreover have "df_empty []"
    by (simp add: df_empty_def)
  ultimately show "\<exists>s'. main rt W s = (Inr (), s') \<and> files s' = files s \<and> dirs s' = dirs s \<and>
            last (out s') = NoTeams"
    by (rule main_no_teams)
next
  assume a: "fetch_teams rt W (print Starting s) = (Inr teams, s1) \<and> \<not> df_empty teams"
  obtain r s2 where b: "build_rosters_and_stats rt W teams s1 = (r, s2)"
    by (cases "build_rosters_and_stats rt W teams s1")
  show "case build_rosters_and_stats rt W teams s1 of
         (Inl err, s2) \<Rightarrow> main rt W s = (Inl err, s2)
       | (Inr (rosters, stats), s2) \<Rightarrow>
           (\<exists>s'. main rt W s = (Inr (), s') \<and>
              map_of (files s') (path_join DATA_FOLDER ''teams.csv'') = Some teams \<and>
              map_of (files s') (path_join DATA_FOLDER ''rosters.csv'') = Some rosters \<and>
              map_of (files s') (path_join DATA_FOLDER ''player_stats.csv'') = Some stats \<and>
              DATA_FOLDER \<in> set (dirs s') \<and> last (out s') = Success)"
  proof (cases r)
    case (Inl err)
    with a b show ?thesis by (simp add: main_def)
  next
    case (Inr tabs)
    obtain ro st where tabs: "tabs = (ro, st)"
      by (cases tabs)
    with b Inr have b': "build_rosters_and_stats rt W teams s1 = (Inr (ro, st), s2)"
      by simp
    from a have "fetch_teams rt W (print Starting s) = (Inr teams, s1)" "\<not> df_empty teams"
      by simp_all
    from main_exports [OF this b'] b' show ?thesis
      by simp
  qed
qed

lemma team_data_entry_full_row:
  "\<exists>rest. team_data rt entry_full =
     Inr (PStr ''TOR'',
          (''team_abbr'', PStr ''TOR'') # (''team_name'', PStr ''Toronto Maple Leafs'') # rest)"
  unfolding entry_full_def
  using team_data_Inr [of "identity_items @
     [(''wins'', PInt 52), (''regulationPlusOtWins'', PInt 40), (''regulationWins'', PInt 30)]"
     "[(''default'', PStr ''TOR'')]" "PStr ''TOR''"
     "[(''default'', PStr ''Toronto Maple Leafs'')]" "PStr ''Toronto Maple Leafs''"
     "PStr ''Eastern''" "PStr ''Atlantic''" "PStr ''TOR.svg''" rt "PInt 10"]
  by (simp add: identity_items_def reg_ot_wins_ints)

lemma one_team_world_standings:
  "fetch_json one_team_world (BASE_URL @ ''/standings/now'') s =
     (Inr (PDict [(''standings'', PList [entry_full])]), s\<lparr>calls := Suc (calls s)\<rparr>)"
  by (simp add: fetch_json_def one_team_world_def url_world_def standings_of_def
      fetch_json_try_def)

lemma one_team_world_stats:
  "fetch_json one_team_world (stats_url report ce) s =
     (Inr PNone,
      print (ErrorFetching (stats_url report ce) RequestException) (s\<lparr>calls := Suc (calls s)\<rparr>))"
  by (simp add: fetch_json_def one_team_world_def url_world_def stats_url_def BASE_URL_def
      fetch_json_try_def)

lemma one_team_world_roster:
  "fetch_json one_team_world (BASE_URL @ ''/roster/'' @ lower stub_runtime ''TOR'' @ ''/'' @ SEASON_ID) s =
     (Inr roster_one_forward, s\<lparr>calls := Suc (calls s)\<rparr>)"
  by (simp add: fetch_json_def one_team_world_def url_world_def BASE_URL_def
      fetch_json_try_def stub_runtime_def SEASON_ID_def fmt_def)

lemma one_team_world_landing:
  "fetch_json one_team_world (BASE_URL @ ''/player/'' @ fmt stub_runtime (PInt 8479318) @ ''/landing'') s =
     (Inr landing_one_season, s\<lparr>calls := Suc (calls s)\<rparr>)"
  by (simp add: fetch_json_def one_team_world_def url_world_def BASE_URL_def
      fetch_json_try_def stub_runtime_def SEASON_ID_def fmt_def)

lemma one_team_world_fetch_teams:
  assumes "team_data stub_runtime entry_full = Inr (PStr ''TOR'', row)"
  shows "\<exists>s1. fetch_teams stub_runtime one_team_world s = (Inr [row], s1)"
proof -
  have "team_entry stub_runtime one_team_world entry_full s1 =
      (Inr row,
       print (ErrorFetching (stats_url ''faceoffpercentages'' (cayenne_expr stub_runtime (PStr ''TOR''))) RequestException)
        ((print (ErrorFetching (stats_url ''goalsbyperiod'' (cayenne_expr stub_runtime (PStr ''TOR''))) RequestException)
          ((print (ErrorFetching (stats_url ''powerplay'' (cayenne_expr stub_runtime (PStr ''TOR''))) RequestException)
            (s1\<lparr>calls := Suc (calls s1)\<rparr>))
           \<lparr>calls := Suc (Suc (calls s1))\<rparr>))
         \<lparr>calls := Suc (Suc (Suc (calls s1)))\<rparr>))" for s1
    unfolding team_entry_def assms seq_Inr prod.case one_team_world_stats
    by (simp add: merge_no_payload print_def)
  then show ?thesis
    unfolding fetch_teams_def one_team_world_standings seq_Inr
    by (simp add: dict_get_def)
qed

lemma one_team_world_roster_rows:
  "fetch_team_roster stub_runtime one_team_world (PStr ''TOR'') s =
     (Inr (PList [player_example]), s\<lparr>calls := Suc (calls s)\<rparr>)"
  unfolding fetch_team_roster_def pyval.case one_team_world_roster seq_Inr
  by (simp add: roster_one_forward_def dict_get_def py_add_def)

lemma one_team_world_player_stats:
  "\<exists>stats. fetch_player_stats stub_runtime one_team_world (PInt 8479318) full_name team_name
       position s = (Inr stats, s\<lparr>calls := Suc (calls s)\<rparr>) \<and>
     map row_tags stats = [(PStr ''season'', PStr ''regular'')]"
  unfolding fetch_player_stats_def one_team_world_landing seq_Inr
  by (simp add: landing_one_season_def dict_get_def season_row_def season_type_def
      career_row_def row_tags_def map_of_dict_update)

lemma one_team_world_build:
  "\<exists>rosters stats s2.
     build_rosters_and_stats stub_runtime one_team_world
       [(''team_abbr'', PStr ''TOR'') # (''team_name'', PStr ''Toronto Maple Leafs'') # rest] s1
       = (Inr (rosters, stats), s2) \<and>
     length rosters = 1 \<and> map row_tags stats = [(PStr ''season'', PStr ''regular'')]"
proof -
  let ?s = "(print (InfoRoster (fmt stub_runtime (PStr ''Toronto Maple Leafs''))) s1)
              \<lparr>calls := Suc (calls (print (InfoRoster (fmt stub_runtime (PStr ''Toronto Maple Leafs''))) s1))\<rparr>"
  from one_team_world_player_stats [of "''Auston Matthews''" "PStr ''Toronto Maple Leafs''" "PStr ''C''" ?s]
  obtain stats where
    ps: "fetch_player_stats stub_runtime one_team_world (PInt 8479318) ''Auston Matthews''
           (PStr ''Toronto Maple Leafs'') (PStr ''C'') ?s = (Inr stats, ?s\<lparr>calls := Suc (calls ?s)\<rparr>)"
    and tags: "map row_tags stats = [(PStr ''season'', PStr ''regular'')]"
    by (elim exE conjE) (rule that)
  have "player_step stub_runtime one_team_world (PStr ''Toronto Maple Leafs'') (PStr ''TOR'')
          player_example ([], []) ?s =
        (Inr ([[(''player_id'', PInt 8479318),
                (''player'', PStr ''Auston Matthews''),
                (''positionCode'', PStr ''C''),
                (''sweaterNumber'', PInt 34),
                (''team'', PStr ''Toronto Maple Leafs''),
                (''team_abbr'', PStr ''TOR''),
                (''headshot'', PNone)]], stats), ?s\<lparr>calls := Suc (calls ?s)\<rparr>)"
    using ps by (simp add: player_step_def player_example_def dict_get_def fmt_def)
  then have "build_rosters_and_stats stub_runtime one_team_world
       [(''team_abbr'', PStr ''TOR'') # (''team_name'', PStr ''Toronto Maple Leafs'') # rest] s1
       = (Inr ([[(''player_id'', PInt 8479318),
                (''player'', PStr ''Auston Matthews''),
                (''positionCode'', PStr ''C''),
                (''sweaterNumber'', PInt 34),
                (''team'', PStr ''Toronto Maple Leafs''),
                (''team_abbr'', PStr ''TOR''),
                (''headshot'', PNone)]], stats), ?s\<lparr>calls := Suc (calls ?s)\<rparr>)"
    by (simp add: build_rosters_and_stats_def team_step_def one_team_world_roster_rows)
  with tags show ?thesis
    by auto
qed

theorem main_stops_without_teams_witness:
  "(\<exists>s'. main stub_runtime (seq_world []) state0 = (Inr (), s') \<and>
         files s' = [] \<and> dirs s' = [] \<and> last (out s') = NoTeams) \<and>
   (\<exists>s'. main stub_runtime (seq_world [standings_of []]) state0 = (Inr (), s') \<and>
         files s' = [] \<and> dirs s' = [] \<and> last (out s') = NoTeams) \<and>
   (\<exists>s' teams rosters stats.
      main stub_runtime one_team_world state0 = (Inr (), s') \<and>
      map_of (files s') ''data/teams.csv'' = Some teams \<and> length teams = 1 \<and>
      map_of (files s') ''data/rosters.csv'' = Some rosters \<and> length rosters = 1 \<and>
      map_of (files s') ''data/player_stats.csv'' = Some stats \<and>
      map row_tags stats = [(PStr ''season'', PStr ''regular'')] \<and>
      last (out s') = Success)"
proof -
  have a: "\<exists>s'. main stub_runtime (seq_world []) state0 = (Inr (), s') \<and>
         files s' = [] \<and> dirs s' = [] \<and> last (out s') = NoTeams"
    using main_stops_without_teams
      [of stub_runtime "seq_world []" state0 _ RequestException]
    by (simp add: seq_world_def fetch_json_try_def state0_def)
  have b: "\<exists>s'. main stub_runtime (seq_world [standings_of []]) state0 = (Inr (), s') \<and>
         files s' = [] \<and> dirs s' = [] \<and> last (out s') = NoTeams"
    using main_stops_without_teams
      [of stub_runtime "seq_world [standings_of []]" state0 _ _ "PDict [(''standings'', PList [])]"]
    by (simp add: seq_world_def fetch_json_try_def state0_def standings_of_def dict_get_def)
  obtain rest where td: "team_data stub_runtime entry_full =
     Inr (PStr ''TOR'',
          (''team_abbr'', PStr ''TOR'') # (''team_name'', PStr ''Toronto Maple Leafs'') # rest)"
    using team_data_entry_full_row [of stub_runtime] by (elim exE) (rule that)
  let ?row = "(''team_abbr'', PStr ''TOR'') # (''team_name'', PStr ''Toronto Maple Leafs'') # rest"
  from one_team_world_fetch_teams [OF td, of "print Starting state0"] obtain s1 where
    ft: "fetch_teams stub_runtime one_team_world (print Starting state0) = (Inr [?row], s1)"
    by (elim exE) (rule that)
  have ne: "\<not> df_empty [?row]"
    by (simp add: df_empty_def)
  from one_team_world_build [of rest s1] obtain rosters stats s2 where
    bl: "build_rosters_and_stats stub_runtime one_team_world [?row] s1 = (Inr (rosters, stats), s2)"
    and lr: "length rosters = 1"
    and tg: "map row_tags stats = [(PStr ''season'', PStr ''regular'')]"
    by (elim exE conjE) (rule that)
  have "case build_rosters_and_stats stub_runtime one_team_world [?row] s1 of
         (Inl err, s2) \<Rightarrow> main stub_runtime one_team_world state0 = (Inl err, s2)
       | (Inr (rosters, stats), s2) \<Rightarrow>
           (\<exists>s'. main stub_runtime one_team_world state0 = (Inr (), s') \<and>
              map_of (files s') (path_join DATA_FOLDER ''teams.csv'') = Some [?row] \<and>
              map_of (files s') (path_join DATA_FOLDER ''rosters.csv'') = Some rosters \<and>
              map_of (files s') (path_join DATA_FOLDER ''player_stats.csv'') = Some stats \<and>
              DATA_FOLDER \<in> set (dirs s') \<and> last (out s') = Success)"
    by (rule main_stops_without_teams
          [of stub_runtime one_team_world state0 "[?row]" _ _ s1,
           THEN conjunct2, THEN conjunct2, THEN mp, OF conjI [OF ft ne]])
  then have "\<exists>s'. main stub_runtime one_team_world state0 = (Inr (), s') \<and>
              map_of (files s') (path_join DATA_FOLDER ''teams.csv'') = Some [?row] \<and>
              map_of (files s') (path_join DATA_FOLDER ''rosters.csv'') = Some rosters \<and>
              map_of (files s') (path_join DATA_FOLDER ''player_stats.csv'') = Some stats \<and>
              DATA_FOLDER \<in> set (dirs s') \<and> last (out s') = Success"
    unfolding bl by simp
  then obtain s' where m: "main stub_runtime one_team_world state0 = (Inr (), s')"
    and f1: "map_of (files s') (path_join DATA_FOLDER ''teams.csv'') = Some [?row]"
    and f2: "map_of (files s') (path_join DATA_FOLDER ''rosters.csv'') = Some rosters"
    and f3: "map_of (files s') (path_join DATA_FOLDER ''player_stats.csv'') = Some stats"
    and o: "last (out s') = Success"
    by (elim exE conjE) (rule that)
  have c: "\<exists>s' teams rosters stats.
      main stub_runtime one_team_world state0 = (Inr (), s') \<and>
      map_of (files s') ''data/teams.csv'' = Some teams \<and> length teams = 1 \<and>
      map_of (files s') ''data/rosters.csv'' = Some rosters \<and> length rosters = 1 \<and>
      map_of (files s') ''data/player_stats.csv'' = Some stats \<and>
      map row_tags stats = [(PStr ''season'', PStr ''regular'')] \<and>
      last (out s') = Success"
    using m f1 f2 f3 o lr tg
    by (intro exI [of _ s'] exI [of _ "[?row]"] exI [of _ rosters] exI [of _ stats])
       (simp add: path_join_def DATA_FOLDER_def)
  from a b c show ?thesis by (intro conjI)
qed

end
